theory Spec2Isabelle
  imports Main
begin

section \<open>OpenSpaceNet: the pipeline assembler of \<open>src/common/src/OpenSpaceNet.cpp\<close>\<close>

text \<open>
  The class \<open>OpenSpaceNet\<close> reads its run configuration \<open>args_\<close>, opens the image,
  loads the model, plans the sliding windows, builds the region filter, creates the
  processing nodes, wires their ports and runs the feature sink. The model below follows
  the member functions one by one. Member variables (\<open>bbox_\<close>, \<open>sr_\<close>, ...) are the fields \<open>m_bbox\<close>, \<open>m_sr\<close>, ... of
  the record \<open>osn\<close>, which every member function takes and returns; a \<open>DG_CHECK\<close> or
  \<open>DG_ERROR_THROW\<close> is the \<open>Inl\<close> branch of the result, returned together with the state
  reached when it was raised. The DeepCore and OpenCV libraries are not part of the file:
  what the code asks of them is a field of the record \<open>world\<close>.
\<close>

subsection \<open>Geometry: \<open>cv::Size\<close>, \<open>cv::Point\<close>, \<open>cv::Rect\<close>\<close>

text \<open>A \<open>cv::Size\<close> is (width, height); a \<open>cv::Point\<close> is (x, y).\<close>

type_synonym Size = "int \<times> int"
type_synonym Point = "int \<times> int"

datatype Rect = Rect (rect_x: int) (rect_y: int) (rect_width: int) (rect_height: int)

text \<open>
  \<open>cv::Rect{{0, 0}, size}\<close> and OpenCV's \<open>operator&\<close>: the overlap of two rectangles, and
  the default rectangle \<open>(0, 0, 0, 0)\<close> when the overlap has no positive width or height.
  Coordinates are \<open>int\<close>; the sums of OpenCV are taken without overflow (signed overflow
  is undefined in C++).
\<close>

definition rect_of_size :: "Size \<Rightarrow> Rect" where
  "rect_of_size s = Rect 0 0 (fst s) (snd s)"

definition rect_and :: "Rect \<Rightarrow> Rect \<Rightarrow> Rect" where
  "rect_and a b =
     (let x1 = max (rect_x a) (rect_x b);
          y1 = max (rect_y a) (rect_y b);
          w = min (rect_x a + rect_width a) (rect_x b + rect_width b) - x1;
          h = min (rect_y a + rect_height a) (rect_y b + rect_height b) - y1
      in if w \<le> 0 \<or> h \<le> 0 then Rect 0 0 0 0 else Rect x1 y1 w h)"

subsection \<open>Spatial references and transformation chains\<close>

datatype SpatialReference = LocalSR | CRS string

definition WGS84 :: SpatialReference where
  "WGS84 = CRS ''WGS84''"

fun isLocal :: "SpatialReference \<Rightarrow> bool" where
  "isLocal LocalSR = True"
| "isLocal (CRS _) = False"

text \<open>
  The transformations the code composes, by name: the image's \<open>pixelToProj()\<close>,
  \<open>sr.fromLatLon()\<close>, \<open>sr.from(other)\<close>, and \<open>inverse()\<close> of one of them. A
  \<open>TransformationChain\<close> is the list of its members in application order; its
  \<open>inverse()\<close> is the reversed list of the members' inverses.
\<close>

datatype Transformation =
    PixelToProj
  | FromLatLon SpatialReference
  | SrFrom SpatialReference SpatialReference
  | Inverse Transformation

type_synonym TransformationChain = "Transformation list"

fun inverse_of :: "Transformation \<Rightarrow> Transformation" where
  "inverse_of (Inverse t) = t"
| "inverse_of t = Inverse t"

definition chain_inverse :: "TransformationChain \<Rightarrow> TransformationChain" where
  "chain_inverse c = rev (map inverse_of c)"

subsection \<open>Errors and log output\<close>

text \<open>
  \<open>DG_CHECK(cond, fmt, args...)\<close> and \<open>DG_ERROR_THROW(fmt, args...)\<close> raise an error
  with a format string and its arguments. The constants below name the errors after the
  specification's taxonomy; each one is the message of the source. \<open>NullDereference\<close>
  stands for reading through the null \<open>metadata_\<close> pointer, which \<open>process\<close> never does.
\<close>

datatype fmt_arg = ArgStr string | ArgInt int

datatype error = DgError string "fmt_arg list" | NullDereference

definition MissingInputSource :: error where
  "MissingInputSource = DgError ''Input source not specified'' []"

definition BoundingBoxRequired :: error where
  "BoundingBoxRequired = DgError ''Bounding box must be specified'' []"

definition NoIntersection :: error where
  "NoIntersection = DgError ''Input image and the provided bounding box do not intersect'' []"

definition WindowStepCountMismatch :: error where
  "WindowStepCountMismatch = DgError ''Number of window sizes and window steps must match.'' []"

definition ResampleSizeTooLarge :: "int \<Rightarrow> int \<Rightarrow> error" where
  "ResampleSizeTooLarge r w =
     DgError ''Argument --resample-size (size: %d) does not fit within the model (width: %d).''
       [ArgInt r, ArgInt w]"

definition WindowSizeTooLarge :: "int \<Rightarrow> error" where
  "WindowSizeTooLarge w =
     DgError ''Argument --window-size contains a size that does not fit within the model (width: %d).''
       [ArgInt w]"

definition UnsupportedModelType :: error where
  "UnsupportedModelType = DgError ''Unsupported model type'' []"

definition UnsupportedGeometryType :: "string \<Rightarrow> error" where
  "UnsupportedGeometryType file =
     DgError ''Filter from file \"%s\" contains a geometry that is not a POLYGON'' [ArgStr file]"

text \<open>The two messages of the CRS check of the region filter, in the order of the source.\<close>

definition CrsMismatchFilter :: "string \<Rightarrow> error" where
  "CrsMismatchFilter file =
     DgError (''Error applying region filter: %d doesn'' @ [CHR 0x27] @
              ''t have a spatial reference, but the input image does'') [ArgStr file]"

definition CrsMismatchImage :: "string \<Rightarrow> error" where
  "CrsMismatchImage file =
     DgError (''Error applying region filter: Input image doesn'' @ [CHR 0x27] @
              ''t have a spatial reference, but the %d does'') [ArgStr file]"

definition UnknownFilterAction :: "string \<Rightarrow> error" where
  "UnknownFilterAction action = DgError ''Unknown filtering action \"%s\"'' [ArgStr action]"

definition MissingCredentials :: error where
  "MissingCredentials = DgError ''No credentials specified for WFS service'' []"

definition MissingToken :: error where
  "MissingToken = DgError ''No token specified for WFS service'' []"

text \<open>
  \<open>Source\<close> is declared in \<open>OpenSpaceNetArgs.h\<close>, which is not part of the source
  file; the enumerators are the ones the code names, with one below \<open>LOCAL\<close> for the
  unspecified source, and \<open>source_rank\<close> is their order (the code compares with
  \<open>> Source::LOCAL\<close>).
\<close>

datatype Source = UNKNOWN | LOCAL | DGCS | EVWHS | MAPS_API | TILE_JSON

fun source_rank :: "Source \<Rightarrow> nat" where
  "source_rank UNKNOWN = 0"
| "source_rank LOCAL = 1"
| "source_rank DGCS = 2"
| "source_rank EVWHS = 3"
| "source_rank MAPS_API = 4"
| "source_rank TILE_JSON = 5"

text \<open>
  What a run prints and asks of the outside, in order: \<open>OSN_LOG\<close> lines, the adjusted
  bounding box (printed with its geographic corners) and \<open>client->connect()\<close> to a map
  service. Lines that only print configuration values (cache size, model description,
  timing) are left out.
\<close>

datatype 'g event =
    LogInfo string
  | LogWarning string
  | LogBboxAdjusted 'g
  | ClientConnect Source

subsection \<open>Run configuration and member state\<close>

text \<open>
  The fields of \<open>args_\<close> that decide the topology, transforms, windows and filter. The
  two catalog identifiers are kept as whether they are set, the label containers as the
  lists the code copies them into.
\<close>

record 'g OpenSpaceNetArgs =
  args_source :: Source
  args_image :: string
  args_bbox :: "'g option"
  args_windowSize :: "int list"
  args_windowStep :: "int list"
  args_resampledSize :: "int option"
  args_nms :: bool
  args_excludeLabels :: "string list"
  args_includeLabels :: "string list"
  args_filterDefinition :: "(string \<times> string list) list"
  args_dgcsCatalogID :: bool
  args_evwhsCatalogID :: bool
  args_credentials :: string
  args_wfsCredentials :: string
  args_token :: string
  args_quiet :: bool

text \<open>The model's metadata, and what \<open>Model\<close> answers to the code.\<close>

record Model =
  category :: string
  modelSize :: Size
  defaultStep :: "Size \<Rightarrow> Point"
  isSegmentationModel :: bool

text \<open>
  The float arithmetic of the window sizes: \<open>aspect_of (w, h)\<close> is
  \<open>(float) h / w\<close> and \<open>round_mul r c\<close> is \<open>(int) roundf(r * c)\<close>. The functions
  below take the two operations as an argument; \<open>single_ops\<close> are the operations of the
  program.
\<close>

record 'f float_ops =
  aspect_of :: "Size \<Rightarrow> 'f"
  round_mul :: "'f \<Rightarrow> int \<Rightarrow> int"

text \<open>
  The C type \<open>float\<close> as the compilers of the program implement it: IEEE 754 binary32,
  every operation rounded to the nearest value, ties to the even mantissa, and evaluated in
  single precision. \<open>Finite m e\<close> is the number \<open>m * 2 ^ e\<close>; \<open>Infinity s\<close> is negative
  when \<open>s\<close> holds. The sign of a zero is not kept: the only division below divides by a
  converted integer, and no other operation used here can tell the two zeros apart. The
  integers converted are those of the model, unbounded; the program converts 32-bit ones.
\<close>

datatype single = Finite int int | Infinity bool | NaN

text \<open>The number of binary digits of a positive integer.\<close>

function bitlen :: "int \<Rightarrow> int" where
  "bitlen n = (if n \<le> 0 then 0 else 1 + bitlen (n div 2))"
  by pat_completeness auto
termination
  by (relation "measure nat") auto

declare bitlen.simps [simp del]

text \<open>The integer nearest to \<open>a / d\<close> for \<open>0 \<le> a\<close> and \<open>0 < d\<close>, ties to even.\<close>

definition nearest_even :: "int \<Rightarrow> int \<Rightarrow> int" where
  "nearest_even a d =
     (let q = a div d; r = a mod d
      in if 2 * r < d then q else if d < 2 * r then q + 1 else if even q then q else q + 1)"

text \<open>
  \<open>to_single n d\<close> is the \<open>float\<close> nearest to the fraction \<open>n / d\<close>, for \<open>0 < d\<close>:
  24 bits of mantissa for a normal value (\<open>2 ^ 23 \<le> |m| < 2 ^ 24\<close>), the exponent
  \<open>- 149\<close> for a subnormal one, infinity from \<open>2 ^ 128\<close> on. \<open>k\<close> is the exponent of
  the leading bit of \<open>|n| / d\<close>.
\<close>

definition to_single :: "int \<Rightarrow> int \<Rightarrow> single" where
  "to_single n d =
     (if n = 0 then Finite 0 0
      else
        (let a = \<bar>n\<bar>;
             k0 = bitlen a - bitlen d;
             k = (if (if 0 \<le> k0 then d * 2 ^ nat k0 \<le> a else d \<le> a * 2 ^ nat (- k0))
                  then k0 else k0 - 1);
             e = max (- 149) (k - 23);
             m = (if 0 \<le> e then nearest_even a (d * 2 ^ nat e)
                  else nearest_even (a * 2 ^ nat (- e)) d);
             m' = (if m = 2 ^ 24 then 2 ^ 23 else m);
             e' = (if m = 2 ^ 24 then e + 1 else e)
         in if m' = 0 then Finite 0 0
            else if 104 < e' then Infinity (n < 0)
            else Finite (sgn n * m') e'))"

text \<open>The conversion \<open>(float) c\<close> of an integer, the product and the quotient.\<close>

definition single_of_int :: "int \<Rightarrow> single" where
  "single_of_int c = to_single c 1"

fun single_mul :: "single \<Rightarrow> single \<Rightarrow> single" where
  "single_mul NaN y = NaN"
| "single_mul x NaN = NaN"
| "single_mul (Infinity s) (Infinity t) = Infinity (s \<noteq> t)"
| "single_mul (Infinity s) (Finite m e) = (if m = 0 then NaN else Infinity (s \<noteq> (m < 0)))"
| "single_mul (Finite m e) (Infinity s) = (if m = 0 then NaN else Infinity (s \<noteq> (m < 0)))"
| "single_mul (Finite m1 e1) (Finite m2 e2) =
     (if 0 \<le> e1 + e2 then to_single (m1 * m2 * 2 ^ nat (e1 + e2)) 1
      else to_single (m1 * m2) (2 ^ nat (- (e1 + e2))))"

fun single_div :: "single \<Rightarrow> single \<Rightarrow> single" where
  "single_div NaN y = NaN"
| "single_div x NaN = NaN"
| "single_div (Infinity s) (Infinity t) = NaN"
| "single_div (Infinity s) (Finite m e) = Infinity (s \<noteq> (m < 0))"
| "single_div (Finite m e) (Infinity s) = Finite 0 0"
| "single_div (Finite m1 e1) (Finite m2 e2) =
     (if m2 = 0 then (if m1 = 0 then NaN else Infinity (m1 < 0))
      else if 0 \<le> e1 - e2 then to_single (m1 * sgn m2 * 2 ^ nat (e1 - e2)) \<bar>m2\<bar>
      else to_single (m1 * sgn m2) (\<bar>m2\<bar> * 2 ^ nat (e2 - e1)))"

text \<open>
  \<open>roundf\<close>: the nearest integer, halves away from zero, as a \<open>float\<close>. The conversion
  \<open>(int) x\<close> truncates; for a value that is not finite or whose truncation is not a
  32-bit \<open>int\<close> the conversion is undefined in C++, and the model returns what the
  conversion instruction of x86-64 returns, the least \<open>int\<close>.
\<close>

fun roundf :: "single \<Rightarrow> single" where
  "roundf (Finite m e) =
     (if 0 \<le> e then Finite m e
      else to_single (sgn m * ((2 * \<bar>m\<bar> + 2 ^ nat (- e)) div (2 * 2 ^ nat (- e)))) 1)"
| "roundf x = x"

fun int_of_single :: "single \<Rightarrow> int" where
  "int_of_single (Finite m e) =
     (let t = (if 0 \<le> e then m * 2 ^ nat e else sgn m * (\<bar>m\<bar> div 2 ^ nat (- e)))
      in if - (2 ^ 31) \<le> t \<and> t < 2 ^ 31 then t else - (2 ^ 31))"
| "int_of_single x = - (2 ^ 31)"

text \<open>
  The float arithmetic of the program: \<open>(float) height / width\<close> of line 470 and
  \<open>(int) roundf(modelAspectRatio_ * c)\<close> of lines 474 to 482, 524 and 711 to 724.
\<close>

definition single_ops :: "single float_ops" where
  "single_ops =
     \<lparr>aspect_of = (\<lambda>s. single_div (single_of_int (snd s)) (single_of_int (fst s))),
      round_mul = (\<lambda>r c. int_of_single (roundf (single_mul r (single_of_int c))))\<rparr>"

text \<open>
  The members of \<open>OpenSpaceNet\<close> the functions below read and write, and \<open>m_log\<close>,
  the events of the run so far.
\<close>

record ('f, 'g) osn =
  m_imageSize :: Size
  m_pixelToLL :: TransformationChain
  m_imageSr :: SpatialReference
  m_sr :: SpatialReference
  m_bbox :: Rect
  m_haveAlpha :: bool
  m_metadata :: "Model option"
  m_modelAspectRatio :: 'f
  m_primaryWindowSize :: Size
  m_primaryWindowStep :: Point
  m_log :: "'g event list"

definition osn_log :: "'g event \<Rightarrow> ('f, 'g) osn \<Rightarrow> ('f, 'g) osn" where
  "osn_log e st = st\<lparr>m_log := m_log st @ [e]\<rparr>"

subsection \<open>Vector files, the region filter, nodes\<close>

text \<open>
  A \<open>FileFeatureSet\<close> is the list of the layers of a vector file; a layer has a spatial
  reference and features; a feature has a geometry type and a geometry, of a type \<open>'p\<close>
  left open.
\<close>

datatype GeometryType = POINT | LINESTRING | POLYGON | MULTIPOLYGON

datatype 'p Feature = Feature (feature_type: GeometryType) (feature_geometry: 'p)

datatype 'p Layer = Layer (layer_sr: SpatialReference) (layer_features: "'p Feature list")

text \<open>
  DeepCore's \<open>MaskedRegionFilter\<close> as the code drives it: created on a rectangle with a
  step, then changed by \<open>add\<close> and \<open>subtract\<close>. The datatype records these calls in
  order.
\<close>

datatype 'p RegionFilter =
    MaskedRegionFilter Rect Point
  | Add "'p RegionFilter" "'p list"
  | Subtract "'p RegionFilter" "'p list"

text \<open>
  Modelled from the spec: what region a filter covers is decided inside DeepCore's
  \<open>MaskedRegionFilter\<close>, which is not part of the source file. The specification
  reads \<open>add\<close> as union and \<open>subtract\<close> as subtraction, starting from an empty filter;
  \<open>area p\<close> is the set of points of the polygon \<open>p\<close>.
\<close>

fun covered :: "('p \<Rightarrow> 'a set) \<Rightarrow> 'p RegionFilter \<Rightarrow> 'a set" where
  "covered area (MaskedRegionFilter r step) = {}"
| "covered area (Add f ps) = covered area f \<union> \<Union> (set (map area ps))"
| "covered area (Subtract f ps) = covered area f - \<Union> (set (map area ps))"

text \<open>
  A node has a name, a class and attributes. Only the attributes whose values the model
  computes are kept (no float thresholds, paths or field tables).
\<close>

datatype NodeKind =
    GdalBlockSource | MapServiceBlockSource | BlockCache | SubsetWithBorder
  | SubsetRegionFilter | SlidingWindow | RemoveBandByColorInterp
  | PolyDetector | BoxDetector | PolyLabelFilter | BoxLabelFilter
  | PolyNonMaxSuppression | BoxNonMaxSuppression | PredictionBoxToPoly
  | PredictionToFeature | WfsFeatureFieldExtractor | FileFeatureSink

datatype LabelFilterType = INCLUDE | EXCLUDE

datatype 'p attr =
    AttrLabels "string list"
  | AttrLabelFilterType LabelFilterType
  | AttrRegionFilter "'p RegionFilter"
  | AttrWindowSizes "(Size \<times> Point) list"
  | AttrSize Size
  | AttrRect Rect
  | AttrSpatialReference SpatialReference
  | AttrString string

record 'p node =
  node_name :: string
  node_kind :: NodeKind
  node_attrs :: "(string \<times> 'p attr) list"

definition create :: "NodeKind \<Rightarrow> string \<Rightarrow> 'p node" where
  "create k name = \<lparr>node_name = name, node_kind = k, node_attrs = []\<rparr>"

definition set_attr :: "string \<Rightarrow> 'p attr \<Rightarrow> 'p node \<Rightarrow> 'p node" where
  "set_attr key v n = n\<lparr>node_attrs := node_attrs n @ [(key, v)]\<rparr>"

text \<open>
  \<open>dst->input(p) = src->output(q)\<close> is an edge from the output port \<open>(src, q)\<close> to the
  input port \<open>(dst, p)\<close>, ports being named by node name and port name.
\<close>

type_synonym port = "string \<times> string"
type_synonym edge = "port \<times> port"

definition connect :: "'p node \<Rightarrow> string \<Rightarrow> 'p node \<Rightarrow> string \<Rightarrow> edge" where
  "connect dst p src q = ((node_name dst, p), (node_name src, q))"

record 'p graph =
  nodes :: "'p node list"
  edges :: "edge list"

subsection \<open>The outside\<close>

text \<open>
  What the code reads from the libraries: the local image opened by \<open>GdalImage\<close>, the
  loaded model, the application of a transformation chain to a geographic box, a pixel
  rectangle or a polygon, the layers of a vector file, the polygon of a rectangle, and
  the answers of a map service client.
\<close>

record GdalImage =
  img_size :: Size
  img_sr :: SpatialReference
  img_haveAlpha :: bool

record ('g, 'p) world =
  gdalImage :: "string \<Rightarrow> GdalImage"
  modelCreate :: Model
  transformToInt :: "TransformationChain \<Rightarrow> 'g \<Rightarrow> Rect"
  transformRect :: "TransformationChain \<Rightarrow> Rect \<Rightarrow> 'g"
  transformBox :: "TransformationChain \<Rightarrow> 'g \<Rightarrow> 'g"
  transformPolygon :: "TransformationChain \<Rightarrow> 'p \<Rightarrow> 'p"
  fileFeatureSet :: "string \<Rightarrow> 'p Layer list"
  rectPolygon :: "Rect \<Rightarrow> 'p"
  clientSpatialReference :: "Source \<Rightarrow> SpatialReference"
  imageFromArea :: "Source \<Rightarrow> 'g \<Rightarrow> GdalImage"
  clientHaveAlpha :: "Source \<Rightarrow> bool"

subsection \<open>\<open>initLocalImage\<close>\<close>

definition initLocalImage ::
  "('g, 'p) world \<Rightarrow> 'g OpenSpaceNetArgs \<Rightarrow> ('f, 'g) osn \<Rightarrow> (error + 'p node) \<times> ('f, 'g) osn" where
  "initLocalImage W args st0 =
     (let image = gdalImage W (args_image args);
          st1 = st0\<lparr>m_imageSize := img_size image, m_imageSr := img_sr image,
                    m_bbox := rect_of_size (img_size image)\<rparr>;
          (llToPixel, ignoreArgsBbox, st2) =
            (if \<not> isLocal (m_imageSr st1)
             then ([FromLatLon (m_imageSr st1), inverse_of PixelToProj], False, st1\<lparr>m_sr := WGS84\<rparr>)
             else
               (let st1a = osn_log (LogWarning
                      (''Image has geometric metadata which cannot be converted to WGS84.  '' @
                       ''Output will be in native space, and some output formats will fail.'')) st1
                in if args_bbox args \<noteq> None
                   then ([inverse_of PixelToProj], True,
                         osn_log (LogWarning ''Ignoring user-supplied bounding box'')
                           (osn_log (LogWarning
                              (''Supplying the --bbox option implicitly requests a conversion from '' @
                               ''WGS84 to pixel space however there is no conversion from WGS84 to '' @
                               ''pixel space.'')) st1a))
                   else ([inverse_of PixelToProj], False, st1a)));
          st3 = st2\<lparr>m_pixelToLL := chain_inverse llToPixel\<rparr>;
          r = (case args_bbox args of
                 None \<Rightarrow> Inr st3
               | Some b \<Rightarrow>
                   if ignoreArgsBbox then Inr st3
                   else
                     (let bbox = transformToInt W llToPixel b;
                          intersect = rect_and (m_bbox st3) bbox
                      in if \<not> (rect_width intersect \<noteq> 0 \<and> rect_height intersect \<noteq> 0)
                         then Inl NoIntersection
                         else
                           (let st4 = (if bbox \<noteq> intersect
                                       then osn_log (LogBboxAdjusted
                                              (transformRect W (m_pixelToLL st3) intersect)) st3
                                       else st3)
                            in Inr (st4\<lparr>m_bbox := intersect\<rparr>))))
      in case r of
           Inl e \<Rightarrow> (Inl e, st3)
         | Inr st5 \<Rightarrow>
             (Inr (set_attr ''path'' (AttrString (args_image args)) (create GdalBlockSource ''blockSource'')),
              st5\<lparr>m_haveAlpha := img_haveAlpha image\<rparr>))"

subsection \<open>\<open>initMapServiceImage\<close>\<close>

definition initMapServiceImage ::
  "('g, 'p) world \<Rightarrow> 'g OpenSpaceNetArgs \<Rightarrow> ('f, 'g) osn \<Rightarrow> (error + 'p node) \<times> ('f, 'g) osn" where
  "initMapServiceImage W args st0 =
     (case args_bbox args of
        None \<Rightarrow> (Inl BoundingBoxRequired, st0)
      | Some b \<Rightarrow>
          (let st1 = osn_log (LogInfo
                       (case args_source args of
                          MAPS_API \<Rightarrow> ''Connecting to MapsAPI...''
                        | EVWHS \<Rightarrow> ''Connecting to EVWHS...''
                        | TILE_JSON \<Rightarrow> ''Connecting to TileJSON...''
                        | _ \<Rightarrow> ''Connecting to DGCS...'')) st0;
               st2 = osn_log (ClientConnect (args_source args)) st1;
               llToProj = FromLatLon (clientSpatialReference W (args_source args));
               projBbox = transformBox W [llToProj] b;
               image = imageFromArea W (args_source args) projBbox;
               projToPixel = inverse_of PixelToProj;
               st3 = st2\<lparr>m_imageSize := img_size image, m_imageSr := img_sr image,
                         m_bbox := transformToInt W [projToPixel] projBbox,
                         m_pixelToLL := chain_inverse [llToProj, projToPixel],
                         m_sr := WGS84,
                         m_haveAlpha := clientHaveAlpha W (args_source args)\<rparr>
           in (Inr (create MapServiceBlockSource ''blockSource''), st3)))"

subsection \<open>\<open>initSubsetRegionFilter\<close>\<close>

text \<open>
  The body of the loop over the layers of a file, up to the transformation applied to the
  layer's features (\<open>compact()\<close> does not change what the chain computes).
\<close>

definition layerTransform ::
  "('f, 'g) osn \<Rightarrow> string \<Rightarrow> 'p Layer \<Rightarrow> error + TransformationChain" where
  "layerTransform st filterFile layer =
     (let pixelToProj = m_pixelToLL st in
      if isLocal (layer_sr layer) \<noteq> isLocal (m_sr st)
      then
        (if \<not> isLocal (layer_sr layer) then Inl (CrsMismatchFilter filterFile)
         else if \<not> isLocal (m_sr st) then Inl (CrsMismatchImage filterFile)
         else Inr (chain_inverse pixelToProj))
      else if \<not> isLocal (m_sr st)
      then Inr (chain_inverse (pixelToProj @ [SrFrom (layer_sr layer) WGS84]))
      else Inr (chain_inverse pixelToProj))"

text \<open>The three nested loops that fill \<open>filterPolys\<close>: features, layers, files.\<close>

fun addFeatures ::
  "('g, 'p) world \<Rightarrow> TransformationChain \<Rightarrow> string \<Rightarrow> 'p list \<Rightarrow> 'p Feature list \<Rightarrow> error + 'p list" where
  "addFeatures W transform filterFile filterPolys [] = Inr filterPolys"
| "addFeatures W transform filterFile filterPolys (feature # rest) =
     (if feature_type feature \<noteq> POLYGON then Inl (UnsupportedGeometryType filterFile)
      else addFeatures W transform filterFile
             (filterPolys @ [transformPolygon W transform (feature_geometry feature)]) rest)"

fun addLayers ::
  "('g, 'p) world \<Rightarrow> ('f, 'g) osn \<Rightarrow> string \<Rightarrow> 'p list \<Rightarrow> 'p Layer list \<Rightarrow> error + 'p list" where
  "addLayers W st filterFile filterPolys [] = Inr filterPolys"
| "addLayers W st filterFile filterPolys (layer # rest) =
     (case layerTransform st filterFile layer of
        Inl e \<Rightarrow> Inl e
      | Inr transform \<Rightarrow>
          (case addFeatures W transform filterFile filterPolys (layer_features layer) of
             Inl e \<Rightarrow> Inl e
           | Inr filterPolys' \<Rightarrow> addLayers W st filterFile filterPolys' rest))"

fun addFiles ::
  "('g, 'p) world \<Rightarrow> ('f, 'g) osn \<Rightarrow> 'p list \<Rightarrow> string list \<Rightarrow> error + 'p list" where
  "addFiles W st filterPolys [] = Inr filterPolys"
| "addFiles W st filterPolys (filterFile # rest) =
     (case addLayers W st filterFile filterPolys (fileFeatureSet W filterFile) of
        Inl e \<Rightarrow> Inl e
      | Inr filterPolys' \<Rightarrow> addFiles W st filterPolys' rest)"

text \<open>
  The loop over \<open>args_.filterDefinition\<close>, with the local variables \<open>regionFilter\<close> and
  \<open>firstAction\<close> as arguments. \<open>extent\<close> is \<open>cv::Rect(0, 0, bbox_.width, bbox_.height)\<close>.
\<close>

definition extent :: "('f, 'g) osn \<Rightarrow> Rect" where
  "extent st = Rect 0 0 (rect_width (m_bbox st)) (rect_height (m_bbox st))"

fun filterActions ::
  "('g, 'p) world \<Rightarrow> ('f, 'g) osn \<Rightarrow> 'p RegionFilter \<Rightarrow> bool \<Rightarrow> (string \<times> string list) list
   \<Rightarrow> (error + 'p RegionFilter) \<times> ('f, 'g) osn" where
  "filterActions W st regionFilter firstAction [] = (Inr regionFilter, st)"
| "filterActions W st regionFilter firstAction ((action, files) # rest) =
     (case addFiles W st [] files of
        Inl e \<Rightarrow> (Inl e, st)
      | Inr filterPolys \<Rightarrow>
          if action = ''include''
          then filterActions W st (Add regionFilter filterPolys) False rest
          else if action = ''exclude''
          then
            (if firstAction
             then filterActions W
                    (osn_log (LogInfo
                       ''User excluded regions first...automatically including the bounding box...'') st)
                    (Subtract (Add regionFilter [rectPolygon W (extent st)]) filterPolys) False rest
             else filterActions W st (Subtract regionFilter filterPolys) False rest)
          else (Inl (UnknownFilterAction action), st))"

definition subsetFilterNode :: "'p RegionFilter \<Rightarrow> 'p node" where
  "subsetFilterNode regionFilter =
     set_attr ''regionFilter'' (AttrRegionFilter regionFilter)
       (create SubsetRegionFilter ''regionFilter'')"

text \<open>The filter \<open>MaskedRegionFilter::create\<close> returns, before any action is applied.\<close>

definition seedFilter :: "('f, 'g) osn \<Rightarrow> 'p RegionFilter" where
  "seedFilter st = MaskedRegionFilter (extent st) (m_primaryWindowStep st)"

definition initSubsetRegionFilter ::
  "('g, 'p) world \<Rightarrow> 'g OpenSpaceNetArgs \<Rightarrow> ('f, 'g) osn
   \<Rightarrow> (error + 'p node option) \<times> ('f, 'g) osn" where
  "initSubsetRegionFilter W args st =
     (if args_filterDefinition args \<noteq> []
      then
        (let st1 = osn_log (LogInfo ''Initializing the subset filter...'') st;
             regionFilter = seedFilter st
         in case filterActions W st1 regionFilter True (args_filterDefinition args) of
              (Inl e, st2) \<Rightarrow> (Inl e, st2)
            | (Inr regionFilter', st2) \<Rightarrow>
                (Inr (Some (subsetFilterNode regionFilter')), st2))
      else (Inr None, st))"

text \<open>
  A layer the loops pass without an error: its anchoring agrees with \<open>sr_\<close> and all its
  features are polygons. A file passes when all its layers do, an action entry when its
  action is known and all its files pass.
\<close>

definition layer_ok :: "('f, 'g) osn \<Rightarrow> 'p Layer \<Rightarrow> bool" where
  "layer_ok st layer \<longleftrightarrow>
     isLocal (layer_sr layer) = isLocal (m_sr st) \<and>
     list_all (\<lambda>feature. feature_type feature = POLYGON) (layer_features layer)"

definition file_ok :: "('g, 'p) world \<Rightarrow> ('f, 'g) osn \<Rightarrow> string \<Rightarrow> bool" where
  "file_ok W st filterFile \<longleftrightarrow> list_all (layer_ok st) (fileFeatureSet W filterFile)"

definition action_ok :: "('g, 'p) world \<Rightarrow> ('f, 'g) osn \<Rightarrow> string \<times> string list \<Rightarrow> bool" where
  "action_ok W st entry \<longleftrightarrow>
     (fst entry = ''include'' \<or> fst entry = ''exclude'') \<and> list_all (file_ok W st) (snd entry)"

subsection \<open>\<open>initDetector\<close>\<close>

text \<open>\<open>cv::Size {c, (int) roundf(modelAspectRatio_ * c)}\<close>, and the same for a step.\<close>

definition scaled :: "'f float_ops \<Rightarrow> ('f, 'g) osn \<Rightarrow> int \<Rightarrow> int \<times> int" where
  "scaled F st c = (c, round_mul F (m_modelAspectRatio st) c)"

definition initDetector ::
  "('g, 'p) world \<Rightarrow> 'f float_ops \<Rightarrow> 'g OpenSpaceNetArgs \<Rightarrow> ('f, 'g) osn
   \<Rightarrow> (error + 'p node) \<times> ('f, 'g) osn" where
  "initDetector W F args st0 =
     (let model = modelCreate W;
          st1 = st0\<lparr>m_metadata := Some model,
                    m_modelAspectRatio := aspect_of F (modelSize model)\<rparr>;
          st2 = st1\<lparr>m_primaryWindowSize :=
                      (case args_windowSize args of
                         w # _ \<Rightarrow> scaled F st1 w
                       | [] \<Rightarrow> (case args_resampledSize args of
                                  Some r \<Rightarrow> scaled F st1 r
                                | None \<Rightarrow> modelSize model))\<rparr>;
          st3 = st2\<lparr>m_primaryWindowStep :=
                      (case args_windowStep args of
                         s # _ \<Rightarrow> scaled F st2 s
                       | [] \<Rightarrow> defaultStep model (m_primaryWindowSize st2))\<rparr>;
          width = fst (modelSize model);
          detectorNode =
            (if category model = ''segmentation''
             then (if \<not> isSegmentationModel model then (Inl UnsupportedModelType, st3)
                   else (Inr (create PolyDetector ''detector''), st3))
             else (Inr (create BoxDetector ''detector''), st3))
      in case args_resampledSize args of
           Some r \<Rightarrow>
             if \<not> r \<le> width then (Inl (ResampleSizeTooLarge r width), st3) else detectorNode
         | None \<Rightarrow>
             if list_ex (\<lambda>c. \<not> c \<le> width) (args_windowSize args)
             then (Inl (WindowSizeTooLarge width), st3)
             else detectorNode)"

subsection \<open>\<open>calcWindows\<close> and \<open>initSlidingWindow\<close>\<close>

definition calcWindows ::
  "'f float_ops \<Rightarrow> 'g OpenSpaceNetArgs \<Rightarrow> ('f, 'g) osn \<Rightarrow> error + (Size \<times> Point) list" where
  "calcWindows F args st =
     (let ws = args_windowSize args; ss = args_windowStep args in
      if \<not> (length ws < 2 \<or> length ss < 2 \<or> length ws = length ss)
      then Inl WindowStepCountMismatch
      else if length ws = length ss \<and> ss \<noteq> []
      then Inr (map (\<lambda>(windowSize, windowStep). (scaled F st windowSize, scaled F st windowStep))
                  (zip ws ss))
      else if length ws > 1
      then Inr (map (\<lambda>c. (scaled F st c, m_primaryWindowStep st)) ws)
      else if length ss > 1
      then Inr (map (\<lambda>c. (m_primaryWindowSize st, scaled F st c)) ss)
      else Inr [(m_primaryWindowSize st, m_primaryWindowStep st)])"

definition initSlidingWindow ::
  "'f float_ops \<Rightarrow> 'g OpenSpaceNetArgs \<Rightarrow> ('f, 'g) osn \<Rightarrow> error + 'p node" where
  "initSlidingWindow F args st =
     (case m_metadata st of
        None \<Rightarrow> Inl NullDereference
      | Some md \<Rightarrow>
          (let resampledSize = (case args_resampledSize args of
                                  Some r \<Rightarrow> scaled F st r
                                | None \<Rightarrow> modelSize md)
           in case calcWindows F args st of
                Inl e \<Rightarrow> Inl e
              | Inr windowSizes \<Rightarrow>
                  Inr (set_attr ''aoi'' (AttrRect (m_bbox st))
                        (set_attr ''resampledSize'' (AttrSize resampledSize)
                          (set_attr ''windowSizes'' (AttrWindowSizes windowSizes)
                            (create SlidingWindow ''slidingWindow''))))))"

subsection \<open>\<open>initLabelFilter\<close>, \<open>initPredictionToFeature\<close>, \<open>initWfs\<close>, \<open>initFeatureSink\<close>\<close>

definition initLabelFilter :: "'g OpenSpaceNetArgs \<Rightarrow> bool \<Rightarrow> 'p node option" where
  "initLabelFilter args isSegmentation =
     (let labelFilter = (if isSegmentation then create PolyLabelFilter ''labelFilter''
                         else create BoxLabelFilter ''labelFilter'')
      in if args_excludeLabels args \<noteq> []
         then Some (set_attr ''labelFilterType'' (AttrLabelFilterType EXCLUDE)
                     (set_attr ''labels'' (AttrLabels (args_excludeLabels args)) labelFilter))
         else if args_includeLabels args \<noteq> []
         then Some (set_attr ''labelFilterType'' (AttrLabelFilterType INCLUDE)
                     (set_attr ''labels'' (AttrLabels (args_includeLabels args)) labelFilter))
         else None)"

text \<open>
  \<open>initPredictionToFeature\<close> reads \<open>args_\<close> only for the geometry type and the extra
  fields, which are not kept.
\<close>

definition initPredictionToFeature :: "'g OpenSpaceNetArgs \<Rightarrow> 'p node" where
  "initPredictionToFeature args =
     set_attr ''topNName'' (AttrString ''top_five'') (create PredictionToFeature ''predToFeature'')"

definition initWfs :: "'g OpenSpaceNetArgs \<Rightarrow> ('f, 'g) osn \<Rightarrow> error + 'p node option" where
  "initWfs args st =
     (if args_dgcsCatalogID args \<or> args_evwhsCatalogID args
      then
        (if args_wfsCredentials args = [] \<and> args_credentials args = [] then Inl MissingCredentials
         else if args_token args = [] then Inl MissingToken
         else Inr (Some (set_attr ''inputSpatialReference'' (AttrSpatialReference (m_imageSr st))
                           (create WfsFeatureFieldExtractor ''fieldExtractor''))))
      else Inr None)"

definition initFeatureSink :: "('f, 'g) osn \<Rightarrow> 'p node" where
  "initFeatureSink st =
     set_attr ''outputSpatialReference'' (AttrSpatialReference (m_sr st))
       (set_attr ''spatialReference'' (AttrSpatialReference (m_imageSr st))
         (create FileFeatureSink ''featureSink''))"

subsection \<open>\<open>process\<close>: creating and wiring the nodes\<close>

text \<open>The local variables of \<open>process\<close> that hold nodes; a null pointer is \<open>None\<close>.\<close>

record 'p pipeline =
  blockSource :: "'p node"
  blockCache :: "'p node"
  model :: "'p node"
  subsetWithBorder :: "'p node"
  subsetFilter :: "'p node option"
  slidingWindow :: "'p node"
  removeAlpha :: "'p node option"
  labelFilter :: "'p node option"
  nmsNode :: "'p node option"
  predictionToFeature :: "'p node"
  wfsExtractor :: "'p node option"
  featureSink :: "'p node"

text \<open>
  The wiring of \<open>process\<close>, from \<open>if(removeAlpha)\<close> to the feature sink's input, in
  the order of the source. \<open>toPoly\<close> is created, and is a node of the graph, only
  for a model that is not a segmentation model. The graph holds every node created and every edge wired
  (\<open>connectAttrs\<close>, which links attributes and not ports, is left out).
\<close>

definition wire :: "bool \<Rightarrow> 'p pipeline \<Rightarrow> 'p graph" where
  "wire isSegmentation N =
     (let toPoly = create PredictionBoxToPoly ''predictionToPoly'';
          e1 = (case removeAlpha N of
                  Some ra \<Rightarrow> [connect ra ''blocks'' (blockSource N) ''blocks'',
                              connect (blockCache N) ''blocks'' ra ''blocks'']
                | None \<Rightarrow> [connect (blockCache N) ''blocks'' (blockSource N) ''blocks'']);
          e2 = [connect (subsetWithBorder N) ''subsets'' (blockCache N) ''subsets''];
          e3 = (case subsetFilter N of
                  Some sf \<Rightarrow> [connect sf ''subsets'' (subsetWithBorder N) ''subsets'',
                              connect (slidingWindow N) ''subsets'' sf ''subsets'']
                | None \<Rightarrow> [connect (slidingWindow N) ''subsets'' (subsetWithBorder N) ''subsets'']);
          e4 = [connect (model N) ''subsets'' (slidingWindow N) ''subsets''];
          e5 = (case labelFilter N of
                  Some lf \<Rightarrow>
                    connect lf ''predictions'' (model N) ''predictions'' #
                    (case nmsNode N of
                       Some nm \<Rightarrow> [connect nm ''predictions'' lf ''predictions'']
                     | None \<Rightarrow> [])
                | None \<Rightarrow>
                    (case nmsNode N of
                       Some nm \<Rightarrow> [connect nm ''predictions'' (model N) ''predictions'']
                     | None \<Rightarrow> []));
          e6 = (if \<not> isSegmentation
                then [connect (predictionToFeature N) ''predictions'' toPoly ''predictions'']
                else []);
          e7 = (case nmsNode N of
                  Some nm \<Rightarrow>
                    if isSegmentation
                    then [connect (predictionToFeature N) ''predictions'' nm ''predictions'']
                    else [connect toPoly ''predictions'' nm ''predictions'']
                | None \<Rightarrow>
                    (case labelFilter N of
                       Some lf \<Rightarrow>
                         if isSegmentation
                         then [connect (predictionToFeature N) ''predictions'' lf ''predictions'']
                         else [connect toPoly ''predictions'' lf ''predictions'']
                     | None \<Rightarrow>
                         if isSegmentation
                         then [connect (predictionToFeature N) ''predictions'' (model N) ''predictions'']
                         else [connect toPoly ''predictions'' (model N) ''predictions'']));
          e8 = (case wfsExtractor N of
                  Some wfs \<Rightarrow> [connect wfs ''features'' (predictionToFeature N) ''features'',
                               connect (featureSink N) ''features'' wfs ''features'']
                | None \<Rightarrow> [connect (featureSink N) ''features'' (predictionToFeature N) ''features''])
      in \<lparr>nodes = [blockSource N, blockCache N, model N, subsetWithBorder N] @
                   (case subsetFilter N of Some sf \<Rightarrow> [sf] | None \<Rightarrow> []) @
                   [slidingWindow N] @
                   (case removeAlpha N of Some ra \<Rightarrow> [ra] | None \<Rightarrow> []) @
                   (case labelFilter N of Some lf \<Rightarrow> [lf] | None \<Rightarrow> []) @
                   (case nmsNode N of Some nm \<Rightarrow> [nm] | None \<Rightarrow> []) @
                   [predictionToFeature N] @
                   (case wfsExtractor N of Some wfs \<Rightarrow> [wfs] | None \<Rightarrow> []) @
                   [featureSink N] @
                   (if \<not> isSegmentation then [toPoly] else []),
          edges = e1 @ e2 @ e3 @ e4 @ e5 @ e6 @ e7 @ e8\<rparr>)"

text \<open>
  Reading a graph: the output ports wired to an input port, and the classes of the nodes
  of a given name.
\<close>

definition producers :: "'p graph \<Rightarrow> port \<Rightarrow> port list" where
  "producers g p = map snd (filter (\<lambda>e. fst e = p) (edges g))"

definition kinds_named :: "'p graph \<Rightarrow> string \<Rightarrow> NodeKind list" where
  "kinds_named g name = map node_kind (filter (\<lambda>n. node_name n = name) (nodes g))"

definition kinds :: "'p graph \<Rightarrow> NodeKind list" where
  "kinds g = map node_kind (nodes g)"

text \<open>
  The three ways \<open>process\<close> opens the image, by \<open>args_.source\<close>.
\<close>

definition openSource ::
  "('g, 'p) world \<Rightarrow> 'g OpenSpaceNetArgs \<Rightarrow> ('f, 'g) osn \<Rightarrow> (error + 'p node) \<times> ('f, 'g) osn" where
  "openSource W args st =
     (if source_rank (args_source args) > source_rank LOCAL
      then initMapServiceImage W args (osn_log (LogInfo ''Opening map service image...'') st)
      else if args_source args = LOCAL
      then initLocalImage W args (osn_log (LogInfo ''Opening local image...'') st)
      else (Inl MissingInputSource, st))"

text \<open>
  \<open>process\<close> up to the wired graph: the nodes are created in the order of the source,
  and the first error ends the run.
\<close>

definition process ::
  "('g, 'p) world \<Rightarrow> 'f float_ops \<Rightarrow> 'g OpenSpaceNetArgs \<Rightarrow> ('f, 'g) osn
   \<Rightarrow> (error + 'p graph) \<times> ('f, 'g) osn" where
  "process W F args st0 =
     (case openSource W args st0 of
        (Inl e, st1) \<Rightarrow> (Inl e, st1)
      | (Inr blockSource', st1) \<Rightarrow>
     (case initDetector W F args (osn_log (LogInfo ''Reading model...'') st1) of
        (Inl e, st2) \<Rightarrow> (Inl e, st2)
      | (Inr model', st2) \<Rightarrow>
     (case initSubsetRegionFilter W args st2 of
        (Inl e, st3) \<Rightarrow> (Inl e, st3)
      | (Inr subsetFilter', st3) \<Rightarrow>
     (case initSlidingWindow F args st3 of
        Inl e \<Rightarrow> (Inl e, st3)
      | Inr slidingWindow' \<Rightarrow>
     (case m_metadata st3 of
        None \<Rightarrow> (Inl NullDereference, st3)
      | Some md \<Rightarrow>
     (let isSegmentation = (category md = ''segmentation'');
          labelFilter' = initLabelFilter args isSegmentation;
          nmsNode' = (if args_nms args
                      then Some (if isSegmentation then create PolyNonMaxSuppression ''nms''
                                 else create BoxNonMaxSuppression ''nms'')
                      else None)
      in case initWfs args st3 of
           Inl e \<Rightarrow> (Inl e, st3)
         | Inr wfsExtractor' \<Rightarrow>
             (Inr (wire isSegmentation
                \<lparr>blockSource = blockSource',
                 blockCache = create BlockCache ''blockCache'',
                 model = model',
                 subsetWithBorder =
                   (case args_resampledSize args of
                      Some r \<Rightarrow> set_attr ''paddedSize'' (AttrSize (modelSize md))
                                  (create SubsetWithBorder ''border'')
                    | None \<Rightarrow> create SubsetWithBorder ''border''),
                 subsetFilter = subsetFilter',
                 slidingWindow = slidingWindow',
                 removeAlpha = (if m_haveAlpha st3
                                then Some (create RemoveBandByColorInterp ''removeAlpha'')
                                else None),
                 labelFilter = labelFilter',
                 nmsNode = nmsNode',
                 predictionToFeature = initPredictionToFeature args,
                 wfsExtractor = wfsExtractor',
                 featureSink = initFeatureSink st3\<rparr>), st3)))))))"

subsection \<open>\<open>process\<close>: running the graph\<close>

text \<open>
  With a progress display and without \<open>--quiet\<close>, \<open>process\<close> subscribes three callbacks
  and runs the sink; otherwise it only runs the sink. A callback receives the new value
  of its metric and reads \<open>pd_->isRunning()\<close>. The record \<open>monitor\<close> keeps the calls
  made on the feature sink and on the progress display, in order.
\<close>

datatype metric = SlidingWindowTotal | SlidingWindowForwarded | DetectorProcessed

datatype sink_call = SinkRun | SinkWait "bool option" | SinkCancel

datatype display_call =
    PdStart | PdStop | UpdateMaximum string int | UpdateCurrent string int

record monitor =
  sinkCalls :: "sink_call list"
  displayCalls :: "display_call list"

text \<open>One firing of a callback: the metric, its value, and what \<open>isRunning()\<close> answers.\<close>

type_synonym firing = "metric \<times> int \<times> bool"

fun callback :: "firing \<Rightarrow> monitor \<Rightarrow> monitor" where
  "callback (SlidingWindowTotal, v, isRunning) m =
     (if \<not> isRunning then m\<lparr>sinkCalls := sinkCalls m @ [SinkCancel]\<rparr>
      else m\<lparr>displayCalls := displayCalls m @
                [UpdateMaximum ''Reading'' v, UpdateMaximum ''Detecting'' v]\<rparr>)"
| "callback (SlidingWindowForwarded, v, isRunning) m =
     (if \<not> isRunning then m\<lparr>sinkCalls := sinkCalls m @ [SinkCancel]\<rparr>
      else m\<lparr>displayCalls := displayCalls m @ [UpdateCurrent ''Reading'' v]\<rparr>)"
| "callback (DetectorProcessed, v, isRunning) m =
     (if \<not> isRunning then m\<lparr>sinkCalls := sinkCalls m @ [SinkCancel]\<rparr>
      else m\<lparr>displayCalls := displayCalls m @ [UpdateCurrent ''Detecting'' v]\<rparr>)"

fun callbacks :: "firing list \<Rightarrow> monitor \<Rightarrow> monitor" where
  "callbacks [] m = m"
| "callbacks (f # fs) m = callbacks fs (callback f m)"

text \<open>
  The run: \<open>quiet\<close> is \<open>args_.quiet\<close>, \<open>pd\<close> says whether \<open>pd_\<close> is set, and the
  firings are the metric changes of the run, in the order the callbacks handle them
  while the sink runs.
\<close>

definition run :: "bool \<Rightarrow> bool \<Rightarrow> firing list \<Rightarrow> monitor" where
  "run quiet pd firings =
     (if \<not> quiet \<and> pd
      then
        (let m1 = \<lparr>sinkCalls = [], displayCalls = [PdStart]\<rparr>;
             m2 = m1\<lparr>sinkCalls := sinkCalls m1 @ [SinkRun, SinkWait (Some True)]\<rparr>;
             m3 = callbacks firings m2
         in m3\<lparr>displayCalls := displayCalls m3 @ [PdStop]\<rparr>)
      else \<lparr>sinkCalls = [SinkRun, SinkWait None], displayCalls = []\<rparr>)"

subsection \<open>A small world to run the functions on\<close>

text \<open>
  \<open>construct\<close> is the object after its constructor: the members are declared in
  \<open>OpenSpaceNet.h\<close>, which is not part of the source file, and are taken here as
  default-constructed (no size, a local spatial reference, no metadata); the float member
  has the value given.

  In \<open>example_world\<close> geographic boxes and polygons are pixel rectangles and every
  transformation maps a rectangle to itself.
\<close>

definition construct :: "'f \<Rightarrow> ('f, 'g) osn" where
  "construct r =
     \<lparr>m_imageSize = (0, 0), m_pixelToLL = [], m_imageSr = LocalSR, m_sr = LocalSR,
      m_bbox = Rect 0 0 0 0, m_haveAlpha = False, m_metadata = None,
      m_modelAspectRatio = r, m_primaryWindowSize = (0, 0), m_primaryWindowStep = (0, 0),
      m_log = []\<rparr>"

definition example_model :: Model where
  "example_model =
     \<lparr>category = ''segmentation'', modelSize = (20, 10),
      defaultStep = (\<lambda>s. (fst s div 2, snd s div 2)), isSegmentationModel = True\<rparr>"

definition example_files :: "string \<Rightarrow> Rect Layer list" where
  "example_files file =
     (if file = ''a.shp'' then [Layer (CRS ''EPSG:4326'') [Feature POLYGON (Rect 10 10 5 5)]]
      else if file = ''b.shp'' then [Layer (CRS ''EPSG:32615'') [Feature POLYGON (Rect 0 0 40 40)]]
      else if file = ''local.shp'' then [Layer LocalSR [Feature POLYGON (Rect 1 1 2 2)]]
      else [])"

definition example_world :: "(Rect, Rect) world" where
  "example_world =
     \<lparr>gdalImage = (\<lambda>path. if path = ''scan.png''
                           then \<lparr>img_size = (100, 50), img_sr = LocalSR, img_haveAlpha = False\<rparr>
                           else \<lparr>img_size = (100, 50), img_sr = CRS ''EPSG:32615'',
                                 img_haveAlpha = False\<rparr>),
      modelCreate = example_model,
      transformToInt = (\<lambda>c r. r),
      transformRect = (\<lambda>c r. r),
      transformBox = (\<lambda>c r. r),
      transformPolygon = (\<lambda>c p. p),
      fileFeatureSet = example_files,
      rectPolygon = (\<lambda>r. r),
      clientSpatialReference = (\<lambda>s. CRS ''EPSG:3857''),
      imageFromArea = (\<lambda>s b. \<lparr>img_size = (256, 256), img_sr = CRS ''EPSG:3857'',
                                img_haveAlpha = False\<rparr>),
      clientHaveAlpha = (\<lambda>s. False)\<rparr>"

definition example_args :: "Rect OpenSpaceNetArgs" where
  "example_args =
     \<lparr>args_source = LOCAL, args_image = ''image.tif'', args_bbox = None,
      args_windowSize = [], args_windowStep = [], args_resampledSize = None,
      args_nms = True, args_excludeLabels = [], args_includeLabels = [],
      args_filterDefinition = [], args_dgcsCatalogID = False, args_evwhsCatalogID = False,
      args_credentials = [], args_wfsCredentials = [], args_token = [],
      args_quiet = False\<rparr>"

text \<open>The state after \<open>image.tif\<close> is opened and the model is read.\<close>

definition example_state :: "(single, Rect) osn" where
  "example_state =
     snd (initDetector example_world single_ops example_args
            (snd (initLocalImage example_world example_args (construct (Finite 0 0)))))"

text \<open>
  The same image with a bounding box that reaches over its right edge, and one
  \<open>exclude\<close> entry in the filter definition.
\<close>

definition clipped_args :: "Rect OpenSpaceNetArgs" where
  "clipped_args =
     example_args\<lparr>args_bbox := Some (Rect 90 10 30 30),
                  args_filterDefinition := [(''exclude'', [''a.shp''])]\<rparr>"

definition clipped_state :: "(single, Rect) osn" where
  "clipped_state =
     snd (initDetector example_world single_ops clipped_args
            (snd (initLocalImage example_world clipped_args (construct (Finite 0 0)))))"

text \<open>
  The heights as the specification words them, \<open>round(aspectRatio \<times> width)\<close> with
  \<open>aspectRatio\<close> the model's height over its width, read as arithmetic on exact
  numbers: the ratio is kept as the fraction (height, width) of a model of positive width,
  and the exact product is rounded to the nearest integer, halves away from zero.
\<close>

definition exact_ops :: "(int \<times> int) float_ops" where
  "exact_ops =
     \<lparr>aspect_of = (\<lambda>s. (snd s, fst s)),
      round_mul = (\<lambda>r c. let n = fst r * c; d = snd r
                          in if 0 \<le> n then (2 * n + d) div (2 * d)
                             else - ((2 * (- n) + d) div (2 * d)))\<rparr>"

text \<open>
  A model 14 pixels wide and 31 high, and one 2531 wide and 4522 high, each with one
  window size and step that fit the model.
\<close>

definition tall_world :: "(Rect, Rect) world" where
  "tall_world = example_world\<lparr>modelCreate := example_model\<lparr>modelSize := (14, 31)\<rparr>\<rparr>"

definition tall_args :: "Rect OpenSpaceNetArgs" where
  "tall_args = example_args\<lparr>args_windowSize := [7], args_windowStep := [7]\<rparr>"

definition large_world :: "(Rect, Rect) world" where
  "large_world = example_world\<lparr>modelCreate := example_model\<lparr>modelSize := (2531, 4522)\<rparr>\<rparr>"

definition large_args :: "Rect OpenSpaceNetArgs" where
  "large_args = example_args\<lparr>args_windowSize := [2224], args_windowStep := [2224]\<rparr>"

subsection \<open>Values of the float operations\<close>

lemma ratio_20_10: "single_div (single_of_int 10) (single_of_int 20) = Finite 8388608 (- 24)"
  by code_simp

lemma height_half_10:
  "int_of_single (roundf (single_mul (Finite 8388608 (- 24)) (single_of_int 10))) = 5"
  by code_simp

lemma height_half_15:
  "int_of_single (roundf (single_mul (Finite 8388608 (- 24)) (single_of_int 15))) = 8"
  by code_simp

lemma height_half_5:
  "int_of_single (roundf (single_mul (Finite 8388608 (- 24)) (single_of_int 5))) = 3"
  by code_simp

lemma height_half_6:
  "int_of_single (roundf (single_mul (Finite 8388608 (- 24)) (single_of_int 6))) = 3"
  by code_simp

lemmas single_eval =
  single_ops_def ratio_20_10 height_half_10 height_half_15 height_half_5 height_half_6

subsection \<open>The example state\<close>

lemma example_state_eq:
  "example_state =
     \<lparr>m_imageSize = (100, 50),
      m_pixelToLL = [PixelToProj, Inverse (FromLatLon (CRS ''EPSG:32615''))],
      m_imageSr = CRS ''EPSG:32615'', m_sr = WGS84, m_bbox = Rect 0 0 100 50,
      m_haveAlpha = False, m_metadata = Some example_model, m_modelAspectRatio = Finite 8388608 (- 24),
      m_primaryWindowSize = (20, 10), m_primaryWindowStep = (10, 5), m_log = []\<rparr>"
  by (simp add: example_state_def initDetector_def initLocalImage_def example_world_def
        example_args_def construct_def single_eval example_model_def Let_def
        rect_of_size_def chain_inverse_def create_def)

lemma clipped_state_eq:
  "clipped_state =
     \<lparr>m_imageSize = (100, 50),
      m_pixelToLL = [PixelToProj, Inverse (FromLatLon (CRS ''EPSG:32615''))],
      m_imageSr = CRS ''EPSG:32615'', m_sr = WGS84, m_bbox = Rect 90 10 10 30,
      m_haveAlpha = False, m_metadata = Some example_model, m_modelAspectRatio = Finite 8388608 (- 24),
      m_primaryWindowSize = (20, 10), m_primaryWindowStep = (10, 5),
      m_log = [LogBboxAdjusted (Rect 90 10 10 30)]\<rparr>"
  by (simp add: clipped_state_def clipped_args_def initDetector_def initLocalImage_def
        example_world_def example_args_def construct_def single_eval example_model_def
        Let_def rect_of_size_def rect_and_def chain_inverse_def create_def osn_log_def)

subsection \<open>The region filter: logging does not change what the loops compute\<close>

lemma layerTransform_log [simp]:
  "layerTransform (osn_log e st) f l = layerTransform st f l"
  by (simp add: layerTransform_def osn_log_def Let_def cong del: if_weak_cong)

lemma addLayers_log [simp]:
  "addLayers W (osn_log e st) f acc ls = addLayers W st f acc ls"
  by (induction ls arbitrary: acc) (auto split: sum.splits)

lemma addFiles_log [simp]:
  "addFiles W (osn_log e st) acc fs = addFiles W st acc fs"
  by (induction fs arbitrary: acc) (auto split: sum.splits)

lemma extent_log [simp]: "extent (osn_log e st) = extent st"
  by (simp add: extent_def osn_log_def)

lemma filterActions_log:
  "fst (filterActions W (osn_log e st) rf b acts) = fst (filterActions W st rf b acts)"
proof (induction acts arbitrary: st rf b e)
  case Nil
  show ?case by simp
next
  case (Cons a acts)
  obtain action files where a: "a = (action, files)" by (cases a)
  show ?case
    by (simp add: a Cons.IH split: sum.splits)
qed

lemma initSubsetRegionFilter_fst:
  assumes ne: "args_filterDefinition args \<noteq> []"
  shows "fst (initSubsetRegionFilter W args st) =
           (case fst (filterActions W st (seedFilter st) True (args_filterDefinition args)) of
              Inl e \<Rightarrow> Inl e
            | Inr regionFilter \<Rightarrow> Inr (Some (subsetFilterNode regionFilter)))"
proof -
  let ?r = "filterActions W (osn_log (LogInfo ''Initializing the subset filter...'') st)
              (seedFilter st) True (args_filterDefinition args)"
  have "fst (initSubsetRegionFilter W args st) =
          (case fst ?r of Inl e \<Rightarrow> Inl e
           | Inr regionFilter \<Rightarrow> Inr (Some (subsetFilterNode regionFilter)))"
    using ne by (cases ?r) (simp add: initSubsetRegionFilter_def Let_def split: sum.splits)
  then show ?thesis by (simp add: filterActions_log)
qed

subsection \<open>The region filter: layers that pass, and the first layer that does not\<close>

lemma addFeatures_polygons:
  "list_all (\<lambda>feature. feature_type feature = POLYGON) fs \<Longrightarrow>
   addFeatures W t f acc fs = Inr (acc @ map (\<lambda>feature. transformPolygon W t (feature_geometry feature)) fs)"
  by (induction fs arbitrary: acc) auto

lemma layerTransform_agree:
  "isLocal (layer_sr l) = isLocal (m_sr st) \<Longrightarrow> \<exists>t. layerTransform st f l = Inr t"
  by (simp add: layerTransform_def Let_def)

lemma layerTransform_mismatch:
  "isLocal (layer_sr l) \<noteq> isLocal (m_sr st) \<Longrightarrow>
   layerTransform st f l =
     Inl (if isLocal (m_sr st) then CrsMismatchFilter f else CrsMismatchImage f)"
  by (auto simp: layerTransform_def Let_def)

lemma addLayers_ok:
  "list_all (layer_ok st) ls \<Longrightarrow> \<exists>ps. addLayers W st f acc ls = Inr ps"
proof (induction ls arbitrary: acc)
  case Nil
  show ?case by simp
next
  case (Cons l ls)
  from Cons.prems have l: "layer_ok st l" and ls: "list_all (layer_ok st) ls" by simp_all
  from l obtain t where t: "layerTransform st f l = Inr t"
    using layerTransform_agree[of l st f] by (auto simp: layer_ok_def)
  from l have "list_all (\<lambda>feature. feature_type feature = POLYGON) (layer_features l)"
    by (simp add: layer_ok_def)
  then obtain ps where ps: "addFeatures W t f acc (layer_features l) = Inr ps"
    by (simp add: addFeatures_polygons)
  show ?case using Cons.IH[OF ls, of ps] by (simp add: t ps)
qed

lemma addLayers_first_mismatch:
  assumes "list_all (layer_ok st) ls1" and "isLocal (layer_sr l) \<noteq> isLocal (m_sr st)"
  shows "addLayers W st f acc (ls1 @ l # ls2) =
           Inl (if isLocal (m_sr st) then CrsMismatchFilter f else CrsMismatchImage f)"
  using assms
proof (induction ls1 arbitrary: acc)
  case Nil
  then show ?case by (simp add: layerTransform_mismatch)
next
  case (Cons k ks)
  from Cons.prems have k: "layer_ok st k" and ks: "list_all (layer_ok st) ks" by simp_all
  from k obtain t where t: "layerTransform st f k = Inr t"
    using layerTransform_agree[of k st f] by (auto simp: layer_ok_def)
  from k have "list_all (\<lambda>feature. feature_type feature = POLYGON) (layer_features k)"
    by (simp add: layer_ok_def)
  then obtain ps where ps: "addFeatures W t f acc (layer_features k) = Inr ps"
    by (simp add: addFeatures_polygons)
  show ?case using Cons.IH[OF ks Cons.prems(2), of ps] by (simp add: t ps)
qed

lemma addLayers_any_mismatch:
  assumes "l \<in> set ls" and "isLocal (layer_sr l) \<noteq> isLocal (m_sr st)"
  shows "\<exists>e. addLayers W st f acc ls = Inl e"
  using assms
proof (induction ls arbitrary: acc)
  case Nil
  then show ?case by simp
next
  case (Cons k ks)
  show ?case
  proof (cases "k = l")
    case True
    then show ?thesis using Cons.prems(2) by (simp add: layerTransform_mismatch)
  next
    case False
    with Cons.prems have "l \<in> set ks" by simp
    from Cons.IH[OF this Cons.prems(2)] show ?thesis
      by (auto split: sum.splits)
  qed
qed

lemma addFiles_ok:
  "list_all (file_ok W st) fs \<Longrightarrow> \<exists>ps. addFiles W st acc fs = Inr ps"
proof (induction fs arbitrary: acc)
  case Nil
  show ?case by simp
next
  case (Cons f fs)
  from Cons.prems have f: "file_ok W st f" and fs: "list_all (file_ok W st) fs"
    by simp_all
  from f have "list_all (layer_ok st) (fileFeatureSet W f)" by (simp add: file_ok_def)
  then obtain ps where ps: "addLayers W st f acc (fileFeatureSet W f) = Inr ps"
    using addLayers_ok by blast
  show ?case using Cons.IH[OF fs, of ps] by (simp add: ps)
qed

lemma addFiles_first_mismatch:
  assumes "list_all (file_ok W st) fs1"
      and "fileFeatureSet W f = ls1 @ l # ls2"
      and "list_all (layer_ok st) ls1"
      and "isLocal (layer_sr l) \<noteq> isLocal (m_sr st)"
  shows "addFiles W st acc (fs1 @ f # fs2) =
           Inl (if isLocal (m_sr st) then CrsMismatchFilter f else CrsMismatchImage f)"
  using assms(1)
proof (induction fs1 arbitrary: acc)
  case Nil
  show ?case
    using addLayers_first_mismatch[OF assms(3) assms(4), of W f acc ls2]
    by (simp add: assms(2))
next
  case (Cons g gs)
  from Cons.prems have g: "file_ok W st g" and gs: "list_all (file_ok W st) gs"
    by simp_all
  from g have "list_all (layer_ok st) (fileFeatureSet W g)" by (simp add: file_ok_def)
  then obtain ps where ps: "addLayers W st g acc (fileFeatureSet W g) = Inr ps"
    using addLayers_ok by blast
  show ?case using Cons.IH[OF gs, of ps] by (simp add: ps)
qed

lemma addFiles_any_mismatch:
  assumes "f \<in> set fs" and "l \<in> set (fileFeatureSet W f)"
      and "isLocal (layer_sr l) \<noteq> isLocal (m_sr st)"
  shows "\<exists>e. addFiles W st acc fs = Inl e"
  using assms(1)
proof (induction fs arbitrary: acc)
  case Nil
  then show ?case by simp
next
  case (Cons g gs)
  show ?case
  proof (cases "g = f")
    case True
    obtain e where "addLayers W st f acc (fileFeatureSet W f) = Inl e"
      using addLayers_any_mismatch[OF assms(2) assms(3)] by blast
    then show ?thesis by (simp add: True)
  next
    case False
    with Cons.prems have "f \<in> set gs" by simp
    from Cons.IH[OF this] show ?thesis by (auto split: sum.splits)
  qed
qed

lemma filterActions_first_failure:
  assumes "list_all (action_ok W st) before" and "addFiles W st [] files = Inl err"
  shows "fst (filterActions W st rf b (before @ (action, files) # after)) = Inl err"
  using assms(1)
proof (induction before arbitrary: rf b)
  case Nil
  show ?case by (simp add: assms(2))
next
  case (Cons a as)
  obtain act fs where a: "a = (act, fs)" by (cases a)
  from Cons.prems have hd: "action_ok W st (act, fs)" and as: "list_all (action_ok W st) as"
    by (simp_all add: a)
  from hd have known: "act = ''include'' \<or> act = ''exclude''"
    and fs: "list_all (file_ok W st) fs"
    by (simp_all add: action_ok_def)
  obtain ps where ps: "addFiles W st [] fs = Inr ps"
    using addFiles_ok[OF fs] by blast
  show ?case
    using known Cons.IH[OF as]
    by (auto simp: a ps filterActions_log)
qed

lemma filterActions_any_mismatch:
  assumes "(action, files) \<in> set acts" and "f \<in> set files"
      and "l \<in> set (fileFeatureSet W f)"
      and "isLocal (layer_sr l) \<noteq> isLocal (m_sr st)"
  shows "\<exists>e. fst (filterActions W st rf b acts) = Inl e"
  using assms(1)
proof (induction acts arbitrary: rf b)
  case Nil
  then show ?case by simp
next
  case (Cons a as)
  obtain act fs where a: "a = (act, fs)" by (cases a)
  show ?case
  proof (cases "a = (action, files)")
    case True
    obtain e where "addFiles W st [] files = Inl e"
      using addFiles_any_mismatch[OF assms(2) assms(3) assms(4)] by blast
    then show ?thesis using True by simp
  next
    case False
    with Cons.prems have "(action, files) \<in> set as" by simp
    from Cons.IH[OF this] show ?thesis
      by (auto simp: a filterActions_log split: sum.splits)
  qed
qed

subsection \<open>What the nodes of a finished \<open>process\<close> are\<close>

lemma openSource_node:
  assumes "openSource W args st = (Inr bs, st1)"
  shows "node_name bs = ''blockSource'' \<and>
         (node_kind bs = GdalBlockSource \<or> node_kind bs = MapServiceBlockSource)"
  using assms
  by (auto simp: openSource_def initLocalImage_def initMapServiceImage_def Let_def
                 create_def set_attr_def
           split: if_splits option.splits sum.splits prod.splits)

lemma initDetector_node:
  assumes "initDetector W F args st = (Inr d, st2)"
  shows "d = create (if category (modelCreate W) = ''segmentation'' then PolyDetector
                     else BoxDetector) ''detector'' \<and>
         m_metadata st2 = Some (modelCreate W)"
  using assms
  by (auto simp: initDetector_def Let_def split: if_splits option.splits)

lemma filterActions_state:
  "\<exists>l. snd (filterActions W st rf b acts) = st\<lparr>m_log := m_log st @ l\<rparr>"
proof (induction acts arbitrary: st rf b)
  case Nil
  show ?case by (auto intro!: exI[of _ "[]"])
next
  case (Cons a acts)
  obtain action files where a: "a = (action, files)" by (cases a)
  have same: "\<exists>l. st = st\<lparr>m_log := m_log st @ l\<rparr>"
    by (rule exI[of _ "[]"]) simp
  have logged: "\<exists>l. snd (filterActions W (osn_log e st) rf' b' acts) = st\<lparr>m_log := m_log st @ l\<rparr>"
    for e rf' b'
  proof -
    obtain l where "snd (filterActions W (osn_log e st) rf' b' acts) =
                      (osn_log e st)\<lparr>m_log := m_log (osn_log e st) @ l\<rparr>"
      using Cons.IH by blast
    then have "snd (filterActions W (osn_log e st) rf' b' acts) = st\<lparr>m_log := m_log st @ (e # l)\<rparr>"
      by (simp add: osn_log_def)
    then show ?thesis by blast
  qed
  show ?case
    using same logged Cons.IH[of st]
    by (simp add: a split: sum.splits)
qed

lemma initSubsetRegionFilter_node:
  assumes "initSubsetRegionFilter W args st = (Inr sf, st3)"
  shows "(sf = None \<or> (\<exists>rf. sf = Some (subsetFilterNode rf))) \<and>
         m_metadata st3 = m_metadata st \<and> m_haveAlpha st3 = m_haveAlpha st"
proof (cases "args_filterDefinition args = []")
  case True
  with assms show ?thesis by (simp add: initSubsetRegionFilter_def)
next
  case False
  let ?st1 = "osn_log (LogInfo ''Initializing the subset filter...'') st"
  let ?r = "filterActions W ?st1 (seedFilter st) True (args_filterDefinition args)"
  obtain l where l: "snd ?r = ?st1\<lparr>m_log := m_log ?st1 @ l\<rparr>"
    using filterActions_state by blast
  from assms False have "st3 = snd ?r \<and> (\<exists>rf. sf = Some (subsetFilterNode rf))"
    by (cases ?r) (auto simp: initSubsetRegionFilter_def Let_def split: sum.splits)
  with l show ?thesis by (simp add: osn_log_def)
qed

lemma initSlidingWindow_node:
  assumes "initSlidingWindow F args st = Inr sw"
  shows "node_name sw = ''slidingWindow'' \<and> node_kind sw = SlidingWindow"
  using assms
  by (auto simp: initSlidingWindow_def Let_def create_def set_attr_def
           split: option.splits sum.splits)

lemma initWfs_node:
  assumes "initWfs args st = Inr wfs"
  shows "wfs = None \<or>
         (\<exists>n. wfs = Some n \<and> node_name n = ''fieldExtractor'' \<and>
              node_kind n = WfsFeatureFieldExtractor)"
  using assms
  by (auto simp: initWfs_def create_def set_attr_def split: if_splits)

text \<open>
  A run of \<open>process\<close> that returns a graph returns \<open>wire\<close> of nodes whose names and
  classes are known; the label filter is the one \<open>initLabelFilter\<close> returns and the NMS
  node exists when \<open>args_.nms\<close> is set, of the class the model's category selects.
\<close>

lemma process_graph:
  fixes W :: "('g, 'p) world"
  assumes "process W F args st = (Inr g, st')"
  shows "\<exists>N. g = wire (category (modelCreate W) = ''segmentation'') N \<and>
             node_name (blockSource N) = ''blockSource'' \<and>
             (node_kind (blockSource N) = GdalBlockSource \<or>
              node_kind (blockSource N) = MapServiceBlockSource) \<and>
             blockCache N = create BlockCache ''blockCache'' \<and>
             model N = create (if category (modelCreate W) = ''segmentation''
                               then PolyDetector else BoxDetector) ''detector'' \<and>
             node_name (subsetWithBorder N) = ''border'' \<and>
             node_kind (subsetWithBorder N) = SubsetWithBorder \<and>
             (subsetFilter N = None \<or> (\<exists>rf. subsetFilter N = Some (subsetFilterNode rf))) \<and>
             node_name (slidingWindow N) = ''slidingWindow'' \<and>
             node_kind (slidingWindow N) = SlidingWindow \<and>
             (removeAlpha N = None \<or>
              removeAlpha N = Some (create RemoveBandByColorInterp ''removeAlpha'')) \<and>
             labelFilter N = initLabelFilter args (category (modelCreate W) = ''segmentation'') \<and>
             nmsNode N =
               (if args_nms args
                then Some (create (if category (modelCreate W) = ''segmentation''
                                   then PolyNonMaxSuppression else BoxNonMaxSuppression) ''nms'')
                else None) \<and>
             predictionToFeature N = initPredictionToFeature args \<and>
             (wfsExtractor N = None \<or>
              (\<exists>n. wfsExtractor N = Some n \<and> node_name n = ''fieldExtractor'' \<and>
                   node_kind n = WfsFeatureFieldExtractor)) \<and>
             node_name (featureSink N) = ''featureSink'' \<and>
             node_kind (featureSink N) = FileFeatureSink"
proof -
  from assms obtain bs st1 where 1: "openSource W args st = (Inr bs, st1)"
    by (cases "openSource W args st") (auto simp: process_def split: sum.splits)
  from assms 1 obtain d st2 where
    2: "initDetector W F args (osn_log (LogInfo ''Reading model...'') st1) = (Inr d, st2)"
    by (cases "initDetector W F args (osn_log (LogInfo ''Reading model...'') st1)")
       (auto simp: process_def split: sum.splits)
  from assms 1 2 obtain sf st3 where 3: "initSubsetRegionFilter W args st2 = (Inr sf, st3)"
    by (cases "initSubsetRegionFilter W args st2") (auto simp: process_def split: sum.splits)
  from assms 1 2 3 obtain sw :: "'p node" where 4: "initSlidingWindow F args st3 = Inr sw"
    by (cases "initSlidingWindow F args st3 :: error + 'p node") (auto simp: process_def)
  note d = initDetector_node[OF 2]
  note f = initSubsetRegionFilter_node[OF 3]
  from d f have md: "m_metadata st3 = Some (modelCreate W)" by simp
  from assms 1 2 3 4 md obtain wfs :: "'p node option" where 5: "initWfs args st3 = Inr wfs"
    by (cases "initWfs args st3 :: error + 'p node option") (auto simp: process_def Let_def)
  let ?seg = "category (modelCreate W) = ''segmentation''"
  let ?N = "\<lparr>blockSource = bs,
             blockCache = create BlockCache ''blockCache'',
             model = d,
             subsetWithBorder =
               (case args_resampledSize args of
                  Some r \<Rightarrow> set_attr ''paddedSize'' (AttrSize (modelSize (modelCreate W)))
                              (create SubsetWithBorder ''border'')
                | None \<Rightarrow> create SubsetWithBorder ''border''),
             subsetFilter = sf,
             slidingWindow = sw,
             removeAlpha = (if m_haveAlpha st3
                            then Some (create RemoveBandByColorInterp ''removeAlpha'')
                            else None),
             labelFilter = initLabelFilter args ?seg,
             nmsNode = (if args_nms args
                        then Some (if ?seg then create PolyNonMaxSuppression ''nms''
                                   else create BoxNonMaxSuppression ''nms'')
                        else None),
             predictionToFeature = initPredictionToFeature args,
             wfsExtractor = wfs,
             featureSink = initFeatureSink st3\<rparr>"
  from assms 1 2 3 4 5 md have g: "g = wire ?seg ?N"
    by (auto simp add: process_def Let_def split del: if_split)
  have border: "node_name (subsetWithBorder ?N) = ''border'' \<and>
                node_kind (subsetWithBorder ?N) = SubsetWithBorder"
    by (simp add: create_def set_attr_def split: option.splits)
  have sink: "node_name (featureSink ?N) = ''featureSink'' \<and>
              node_kind (featureSink ?N) = FileFeatureSink"
    by (simp add: initFeatureSink_def create_def set_attr_def)
  have nms: "nmsNode ?N =
               (if args_nms args
                then Some (create (if ?seg then PolyNonMaxSuppression else BoxNonMaxSuppression) ''nms'')
                else None)"
    by simp
  show ?thesis
    apply (rule exI[of _ ?N])
    using g openSource_node[OF 1] d f initSlidingWindow_node[OF 4] initWfs_node[OF 5]
          border sink nms
    apply (simp only: pipeline.simps)
    apply simp
    done
qed

subsection \<open>The callbacks of the run\<close>

lemma callbacks_append: "callbacks (pre @ post) m = callbacks post (callbacks pre m)"
  by (induction pre arbitrary: m) simp_all

lemma callback_stopped:
  "callback (mt, v, False) m = m\<lparr>sinkCalls := sinkCalls m @ [SinkCancel]\<rparr>"
  by (cases mt) simp_all

lemma callbacks_stopped:
  "list_all (\<lambda>f. \<not> snd (snd f)) post \<Longrightarrow>
   callbacks post m = m\<lparr>sinkCalls := sinkCalls m @ replicate (length post) SinkCancel\<rparr>"
proof (induction post arbitrary: m)
  case Nil
  show ?case by simp
next
  case (Cons f fs)
  obtain mt v r where f: "f = (mt, v, r)" by (cases f)
  from Cons.prems have r: "\<not> r" and fs: "list_all (\<lambda>f. \<not> snd (snd f)) fs"
    by (simp_all add: f)
  show ?case
    using Cons.IH[OF fs] r
    by (simp add: f callback_stopped replicate_append_same)
qed

subsection \<open>The include list is read only when the exclude list is empty\<close>

lemma openSource_includeLabels:
  "openSource W (args\<lparr>args_includeLabels := other\<rparr>) st = openSource W args st"
  by (simp add: openSource_def initLocalImage_def initMapServiceImage_def Let_def
        cong del: if_weak_cong option.case_cong_weak list.case_cong_weak sum.case_cong_weak Source.case_cong_weak)

lemma initDetector_includeLabels:
  "initDetector W F (args\<lparr>args_includeLabels := other\<rparr>) st = initDetector W F args st"
  by (simp add: initDetector_def Let_def
        cong del: if_weak_cong option.case_cong_weak list.case_cong_weak sum.case_cong_weak Source.case_cong_weak)

lemma initSubsetRegionFilter_includeLabels:
  "initSubsetRegionFilter W (args\<lparr>args_includeLabels := other\<rparr>) st =
   initSubsetRegionFilter W args st"
  by (simp add: initSubsetRegionFilter_def Let_def
        cong del: if_weak_cong option.case_cong_weak list.case_cong_weak sum.case_cong_weak Source.case_cong_weak)

lemma initSlidingWindow_includeLabels:
  "initSlidingWindow F (args\<lparr>args_includeLabels := other\<rparr>) st = initSlidingWindow F args st"
  by (simp add: initSlidingWindow_def calcWindows_def Let_def
        cong del: if_weak_cong option.case_cong_weak list.case_cong_weak sum.case_cong_weak Source.case_cong_weak)

lemma initWfs_includeLabels:
  "initWfs (args\<lparr>args_includeLabels := other\<rparr>) st = initWfs args st"
  by (simp add: initWfs_def
        cong del: if_weak_cong option.case_cong_weak list.case_cong_weak sum.case_cong_weak Source.case_cong_weak)

lemma initLabelFilter_includeLabels:
  "args_excludeLabels args \<noteq> [] \<Longrightarrow>
   initLabelFilter (args\<lparr>args_includeLabels := other\<rparr>) seg = initLabelFilter args seg"
  by (simp add: initLabelFilter_def Let_def
        cong del: if_weak_cong option.case_cong_weak list.case_cong_weak sum.case_cong_weak Source.case_cong_weak)

lemma process_includeLabels:
  "args_excludeLabels args \<noteq> [] \<Longrightarrow>
   process W F (args\<lparr>args_includeLabels := other\<rparr>) st = process W F args st"
  by (simp add: process_def openSource_includeLabels initDetector_includeLabels
        initSubsetRegionFilter_includeLabels initSlidingWindow_includeLabels
        initWfs_includeLabels initLabelFilter_includeLabels initPredictionToFeature_def Let_def
        cong del: if_weak_cong option.case_cong_weak list.case_cong_weak sum.case_cong_weak Source.case_cong_weak)

text \<open>
  C1. In every graph \<open>process\<close> returns: if the model's category is \<open>segmentation\<close>,
  NMS is enabled and both label lists are empty, the node \<open>nms\<close> is a polygon NMS node,
  the only producer wired to its \<open>predictions\<close> input is the \<open>predictions\<close> output of the
  (polygon) detector, and no node is a box-to-polygon conversion; if the category is not
  \<open>segmentation\<close> (so for \<open>detection\<close>), NMS is disabled and a label list is not empty,
  the \<open>predictions\<close> ports are wired detector, label filter, box-to-polygon conversion,
  feature conversion, each input having that single producer, and no node is an NMS node.
\<close>

theorem process_topology:
  fixes W :: "('g, 'p) world"
  assumes run: "process W F args st = (Inr g, st')"
  shows "(category (modelCreate W) = ''segmentation'' \<longrightarrow> args_nms args \<longrightarrow>
          args_excludeLabels args = [] \<longrightarrow> args_includeLabels args = [] \<longrightarrow>
            kinds_named g ''nms'' = [PolyNonMaxSuppression] \<and>
            kinds_named g ''detector'' = [PolyDetector] \<and>
            producers g (''nms'', ''predictions'') = [(''detector'', ''predictions'')] \<and>
            PredictionBoxToPoly \<notin> set (kinds g)) \<and>
         (category (modelCreate W) \<noteq> ''segmentation'' \<longrightarrow> \<not> args_nms args \<longrightarrow>
          (args_excludeLabels args \<noteq> [] \<or> args_includeLabels args \<noteq> []) \<longrightarrow>
            kinds_named g ''detector'' = [BoxDetector] \<and>
            kinds_named g ''labelFilter'' = [BoxLabelFilter] \<and>
            kinds_named g ''predictionToPoly'' = [PredictionBoxToPoly] \<and>
            kinds_named g ''predToFeature'' = [PredictionToFeature] \<and>
            producers g (''labelFilter'', ''predictions'') = [(''detector'', ''predictions'')] \<and>
            producers g (''predictionToPoly'', ''predictions'') = [(''labelFilter'', ''predictions'')] \<and>
            producers g (''predToFeature'', ''predictions'') =
              [(''predictionToPoly'', ''predictions'')] \<and>
            PolyNonMaxSuppression \<notin> set (kinds g) \<and>
            BoxNonMaxSuppression \<notin> set (kinds g))"
  using process_graph[OF run]
  apply (elim exE conjE)
  apply (elim disjE exE conjE)
  apply (simp_all add: wire_def kinds_named_def producers_def kinds_def connect_def create_def
                   set_attr_def initLabelFilter_def initPredictionToFeature_def
                   subsetFilterNode_def Let_def)
  done

theorem process_topology_witness:
  "(\<exists>g st'. process example_world single_ops example_args (construct (Finite 0 0)) = (Inr g, st') \<and>
      kinds_named g ''nms'' = [PolyNonMaxSuppression] \<and>
      producers g (''nms'', ''predictions'') = [(''detector'', ''predictions'')] \<and>
      PredictionBoxToPoly \<notin> set (kinds g)) \<and>
   (\<exists>g st'. process (example_world\<lparr>modelCreate := example_model\<lparr>category := ''detection''\<rparr>\<rparr>)
               single_ops
               (example_args\<lparr>args_nms := False, args_includeLabels := [''car'']\<rparr>)
               (construct (Finite 0 0)) = (Inr g, st') \<and>
      producers g (''labelFilter'', ''predictions'') = [(''detector'', ''predictions'')] \<and>
      producers g (''predictionToPoly'', ''predictions'') = [(''labelFilter'', ''predictions'')] \<and>
      producers g (''predToFeature'', ''predictions'') = [(''predictionToPoly'', ''predictions'')] \<and>
      BoxNonMaxSuppression \<notin> set (kinds g) \<and> PolyNonMaxSuppression \<notin> set (kinds g))"
proof -
  let ?W = "example_world\<lparr>modelCreate := example_model\<lparr>category := ''detection''\<rparr>\<rparr>"
  let ?args = "example_args\<lparr>args_nms := False, args_includeLabels := [''car'']\<rparr>"
  obtain g1 st1 where
    1: "process example_world single_ops example_args (construct (Finite 0 0)) = (Inr g1, st1)"
    by (simp add: process_def openSource_def initLocalImage_def initDetector_def
          initSubsetRegionFilter_def initSlidingWindow_def calcWindows_def initWfs_def
          example_world_def example_args_def example_model_def construct_def osn_log_def Let_def)
  obtain g2 st2 where
    2: "process ?W single_ops ?args (construct (Finite 0 0)) = (Inr g2, st2)"
    by (simp add: process_def openSource_def initLocalImage_def initDetector_def
          initSubsetRegionFilter_def initSlidingWindow_def calcWindows_def initWfs_def
          example_world_def example_args_def example_model_def construct_def osn_log_def Let_def)
  have seg: "category (modelCreate example_world) = ''segmentation''"
    by (simp add: example_world_def example_model_def)
  have det: "category (modelCreate ?W) \<noteq> ''segmentation''"
    by (simp add: example_world_def example_model_def)
  have a1: "args_nms example_args \<and> args_excludeLabels example_args = [] \<and>
            args_includeLabels example_args = []"
    by (simp add: example_args_def)
  have a2: "\<not> args_nms ?args \<and> args_includeLabels ?args \<noteq> []"
    by simp
  show ?thesis
    using process_topology[OF 1] process_topology[OF 2] seg det a1 a2 1 2
    by simp
qed

text \<open>
  C2, as stated: when the first action is \<open>exclude\<close>, the rectangle of the full image
  is united into the filter first. In the run below the image is 100 by 50 pixels and the
  bounding box of the user is cut to the rectangle \<open>(90, 10, 10, 30)\<close>; the rectangle
  united into the filter is \<open>(0, 0, 10, 30)\<close>, not the rectangle of the image.
\<close>

theorem region_filter_full_image_counterexample:
  "m_imageSize clipped_state = (100, 50) \<and>
   fst (initSubsetRegionFilter example_world clipped_args clipped_state) =
     Inr (Some (subsetFilterNode
            (Subtract (Add (MaskedRegionFilter (Rect 0 0 10 30) (10, 5)) [Rect 0 0 10 30])
               [Rect 10 10 5 5]))) \<and>
   Rect 0 0 10 30 \<noteq> rect_of_size (m_imageSize clipped_state)"
proof -
  have a: "addFiles example_world clipped_state [] [''a.shp''] = Inr [Rect 10 10 5 5]"
    by (simp add: clipped_state_eq example_world_def example_files_def layerTransform_def
          WGS84_def Let_def)
  have "fst (filterActions example_world clipped_state
               (seedFilter clipped_state) True [(''exclude'', [''a.shp''])]) =
          Inr (Subtract (Add (MaskedRegionFilter (Rect 0 0 10 30) (10, 5)) [Rect 0 0 10 30])
                 [Rect 10 10 5 5])"
    using a
    by (simp add: seedFilter_def extent_def clipped_state_eq example_world_def
          del: addFiles.simps)
  then show ?thesis
    by (simp add: initSubsetRegionFilter_fst clipped_args_def example_args_def
          clipped_state_eq rect_of_size_def)
qed

text \<open>
  C2, amended. Let the files of an \<open>exclude\<close> entry load to the transformed polygons
  \<open>polysA\<close>. If that entry is the first of the filter definition,
  \<open>initSubsetRegionFilter\<close> first adds to the empty filter the polygon of a rectangle
  that has the width and the height of the bounding box \<open>bbox_\<close>, and then subtracts
  \<open>polysA\<close>; the remaining entries are applied to that filter with \<open>firstAction\<close>
  false. So the definition \<open>[(exclude, filesA)]\<close> yields the rectangle minus
  \<open>polysA\<close>, and the definition \<open>[(include, filesB), (exclude, filesA)]\<close> yields
  \<open>polysB\<close> minus \<open>polysA\<close>, without the rectangle. With \<open>add\<close> read as union and
  \<open>subtract\<close> as subtraction, as the specification does, the regions covered are the
  set differences. Where the rectangle lies is not part of the statement.
\<close>

theorem region_filter_exclude_first:
  fixes W :: "('g, 'p) world" and st :: "('f, 'g) osn"
  assumes A: "addFiles W st [] filesA = Inr polysA"
  shows "\<exists>box empty.
           rect_width box = rect_width (m_bbox st) \<and>
           rect_height box = rect_height (m_bbox st) \<and>
           covered area empty = {} \<and>
           (args_filterDefinition args = (''exclude'', filesA) # rest \<longrightarrow>
              fst (initSubsetRegionFilter W args st) =
                (case fst (filterActions W st
                           (Subtract (Add empty [rectPolygon W box]) polysA) False rest) of
                   Inl e \<Rightarrow> Inl e
                 | Inr regionFilter \<Rightarrow> Inr (Some (subsetFilterNode regionFilter)))) \<and>
           (args_filterDefinition args = [(''exclude'', filesA)] \<longrightarrow>
              fst (initSubsetRegionFilter W args st) =
                Inr (Some (subsetFilterNode
                       (Subtract (Add empty [rectPolygon W box]) polysA)))) \<and>
           (addFiles W st [] filesB = Inr polysB \<longrightarrow>
            args_filterDefinition args = [(''include'', filesB), (''exclude'', filesA)] \<longrightarrow>
              fst (initSubsetRegionFilter W args st) =
                Inr (Some (subsetFilterNode (Subtract (Add empty polysB) polysA)))) \<and>
           covered area (Subtract (Add empty [rectPolygon W box]) polysA) =
             area (rectPolygon W box) - \<Union> (set (map area polysA)) \<and>
           covered area (Subtract (Add empty polysB) polysA) =
             \<Union> (set (map area polysB)) - \<Union> (set (map area polysA))"
proof -
  let ?seed = "seedFilter st :: 'p RegionFilter"
  have step: "fst (filterActions W st ?seed True ((''exclude'', filesA) # rest)) =
                fst (filterActions W st
                       (Subtract (Add ?seed [rectPolygon W (extent st)]) polysA) False rest)"
    using A by (simp add: filterActions_log)
  have one: "fst (filterActions W st ?seed True [(''exclude'', filesA)]) =
               Inr (Subtract (Add ?seed [rectPolygon W (extent st)]) polysA)"
    using A by simp
  have two: "fst (filterActions W st ?seed True [(''include'', filesB), (''exclude'', filesA)]) =
               Inr (Subtract (Add ?seed polysB) polysA)"
    if "addFiles W st [] filesB = Inr polysB"
    using A that by simp
  have cov: "covered area ?seed = {}"
    by (simp add: seedFilter_def)
  have size: "rect_width (extent st) = rect_width (m_bbox st) \<and>
              rect_height (extent st) = rect_height (m_bbox st)"
    by (simp add: extent_def)
  show ?thesis
    apply (rule exI[of _ "extent st"])
    apply (rule exI[of _ ?seed])
    using step one two cov size
    apply (simp add: initSubsetRegionFilter_fst)
    done
qed

theorem region_filter_exclude_first_witness:
  "addFiles example_world example_state [] [''a.shp''] = Inr [Rect 10 10 5 5] \<and>
   (\<exists>box empty.
      rect_width box = 100 \<and> rect_height box = 50 \<and>
      fst (initSubsetRegionFilter example_world
             (example_args\<lparr>args_filterDefinition := [(''exclude'', [''a.shp''])]\<rparr>)
             example_state) =
        Inr (Some (subsetFilterNode (Subtract (Add empty [box]) [Rect 10 10 5 5]))) \<and>
      fst (initSubsetRegionFilter example_world
             (example_args\<lparr>args_filterDefinition :=
                [(''include'', [''b.shp'']), (''exclude'', [''a.shp''])]\<rparr>) example_state) =
        Inr (Some (subsetFilterNode (Subtract (Add empty [Rect 0 0 40 40]) [Rect 10 10 5 5]))))"
proof -
  have a: "addFiles example_world example_state [] [''a.shp''] = Inr [Rect 10 10 5 5]"
    by (simp add: example_state_eq example_world_def example_files_def layerTransform_def
          WGS84_def Let_def)
  have b: "addFiles example_world example_state [] [''b.shp''] = Inr [Rect 0 0 40 40]"
    by (simp add: example_state_eq example_world_def example_files_def layerTransform_def
          WGS84_def Let_def)
  have bbox: "m_bbox example_state = Rect 0 0 100 50"
    by (simp add: example_state_eq)
  have poly: "rectPolygon example_world = (\<lambda>r. r)"
    by (simp add: example_world_def)
  have seed: "seedFilter example_state = (MaskedRegionFilter (Rect 0 0 100 50) (10, 5) :: Rect RegionFilter)"
    by (simp add: seedFilter_def extent_def example_state_eq)
  have incl: "fst (initSubsetRegionFilter example_world
             (example_args\<lparr>args_filterDefinition :=
                [(''include'', [''b.shp'']), (''exclude'', [''a.shp''])]\<rparr>) example_state) =
        Inr (Some (subsetFilterNode
               (Subtract (Add (seedFilter example_state) [Rect 0 0 40 40]) [Rect 10 10 5 5])))"
    using a b by (simp add: initSubsetRegionFilter_fst del: addFiles.simps)
  obtain box empty where
    w: "rect_width box = rect_width (m_bbox example_state)" and
    h: "rect_height box = rect_height (m_bbox example_state)" and
    x: "fst (initSubsetRegionFilter example_world
               (example_args\<lparr>args_filterDefinition := [(''exclude'', [''a.shp''])]\<rparr>)
               example_state) =
          Inr (Some (subsetFilterNode
                 (Subtract (Add empty [rectPolygon example_world box]) [Rect 10 10 5 5])))"
    using region_filter_exclude_first
            [OF a, of "\<lambda>r. {r}"
                "example_args\<lparr>args_filterDefinition := [(''exclude'', [''a.shp''])]\<rparr>" "[]"
                "[''b.shp'']" "[Rect 0 0 40 40]"]
    by auto
  have "empty = seedFilter example_state \<and> box = Rect 0 0 100 50"
    using x a by (simp add: initSubsetRegionFilter_fst subsetFilterNode_def set_attr_def
                    create_def poly extent_def bbox del: addFiles.simps)
  with x have excl: "fst (initSubsetRegionFilter example_world
               (example_args\<lparr>args_filterDefinition := [(''exclude'', [''a.shp''])]\<rparr>)
               example_state) =
          Inr (Some (subsetFilterNode
                 (Subtract (Add (seedFilter example_state) [Rect 0 0 100 50]) [Rect 10 10 5 5])))"
    by (simp add: poly)
  show ?thesis
    apply (rule conjI)
     apply (rule a)
    apply (rule exI[of _ "Rect 0 0 100 50"])
    apply (rule exI[of _ "seedFilter example_state"])
    using excl incl
    apply simp
    done
qed

text \<open>
  C3. For a local image with a CRS-anchored spatial reference and a bounding box
  \<open>b\<close> given by the user, \<open>initLocalImage\<close> transforms \<open>b\<close> to an integer pixel
  rectangle through \<open>llToPixel\<close> and intersects it with the rectangle of the whole image.
  If the intersection has width or height zero the result is the no-intersection error,
  and it is the result of \<open>process\<close> for a local source.
  Otherwise the function returns its block source, \<open>bbox_\<close> is the intersection, and the
  log grows by exactly one entry, the intersection transformed through
  \<open>llToPixel.inverse()\<close>, when the intersection differs from the requested rectangle, and
  by nothing when it does not.
\<close>

theorem initLocalImage_bbox_intersection:
  fixes W :: "('g, 'p) world" and st :: "('f, 'g) osn"
  assumes "\<not> isLocal (img_sr (gdalImage W (args_image args)))"
      and "args_bbox args = Some b"
  shows "let image = gdalImage W (args_image args);
             llToPixel = [FromLatLon (img_sr image), Inverse PixelToProj];
             requested = transformToInt W llToPixel b;
             intersect = rect_and (rect_of_size (img_size image)) requested;
             (r, st') = initLocalImage W args st
         in if rect_width intersect = 0 \<or> rect_height intersect = 0
            then r = Inl NoIntersection \<and>
                 (args_source args = LOCAL \<longrightarrow> fst (process W F args st) = Inl NoIntersection)
            else (\<exists>blockSource. r = Inr blockSource) \<and> m_bbox st' = intersect \<and>
                 m_log st' = m_log st @
                   (if requested \<noteq> intersect
                    then [LogBboxAdjusted (transformRect W (chain_inverse llToPixel) intersect)]
                    else [])"
  using assms
  by (simp add: initLocalImage_def process_def openSource_def Let_def osn_log_def
        split: prod.splits)

theorem initLocalImage_bbox_intersection_witness:
  "fst (initLocalImage example_world (example_args\<lparr>args_bbox := Some (Rect 200 10 30 30)\<rparr>)
          (construct (Finite 0 0))) = Inl NoIntersection \<and>
   fst (process example_world single_ops (example_args\<lparr>args_bbox := Some (Rect 200 10 30 30)\<rparr>)
          (construct (Finite 0 0))) = Inl NoIntersection \<and>
   m_bbox (snd (initLocalImage example_world (example_args\<lparr>args_bbox := Some (Rect 90 10 30 30)\<rparr>)
          (construct (Finite 0 0)))) = Rect 90 10 10 30 \<and>
   m_log (snd (initLocalImage example_world (example_args\<lparr>args_bbox := Some (Rect 90 10 30 30)\<rparr>)
          (construct (Finite 0 0)))) = [LogBboxAdjusted (Rect 90 10 10 30)]"
  using initLocalImage_bbox_intersection
          [of example_world "example_args\<lparr>args_bbox := Some (Rect 200 10 30 30)\<rparr>"
              "Rect 200 10 30 30" "construct (Finite 0 0)" single_ops]
        initLocalImage_bbox_intersection
          [of example_world "example_args\<lparr>args_bbox := Some (Rect 90 10 30 30)\<rparr>"
              "Rect 90 10 30 30" "construct (Finite 0 0)" single_ops]
  by (simp add: example_world_def example_args_def construct_def rect_and_def rect_of_size_def
        Let_def split: prod.splits)

text \<open>
  C4. For a local image whose spatial reference is local, \<open>initLocalImage\<close> does not
  fail, with or without a bounding box from the user: it returns its block source, leaves
  \<open>sr_\<close> as it was (local, for the object as constructed), sets \<open>bbox_\<close> to the rectangle
  of the whole image, and, when a bounding box was given, logs the warning that the box is
  ignored.
\<close>

theorem initLocalImage_local_image:
  fixes W :: "('g, 'p) world" and st :: "('f, 'g) osn"
  assumes "isLocal (img_sr (gdalImage W (args_image args)))"
  shows "\<exists>blockSource st'.
           initLocalImage W args st = (Inr blockSource, st') \<and>
           m_sr st' = m_sr st \<and>
           (m_sr st = LocalSR \<longrightarrow> isLocal (m_sr st')) \<and>
           m_bbox st' = rect_of_size (img_size (gdalImage W (args_image args))) \<and>
           (args_bbox args \<noteq> None \<longrightarrow>
              LogWarning ''Ignoring user-supplied bounding box'' \<in> set (m_log st'))"
  using assms
  by (auto simp add: initLocalImage_def Let_def osn_log_def split: prod.splits option.splits)

theorem initLocalImage_local_image_witness:
  "fst (initLocalImage example_world
          (example_args\<lparr>args_image := ''scan.png'', args_bbox := Some (Rect 200 10 30 30)\<rparr>)
          (construct (Finite 0 0))) =
     Inr \<lparr>node_name = ''blockSource'', node_kind = GdalBlockSource,
          node_attrs = [(''path'', AttrString ''scan.png'')]\<rparr> \<and>
   m_sr (snd (initLocalImage example_world
          (example_args\<lparr>args_image := ''scan.png'', args_bbox := Some (Rect 200 10 30 30)\<rparr>)
          (construct (Finite 0 0)))) = LocalSR \<and>
   m_bbox (snd (initLocalImage example_world
          (example_args\<lparr>args_image := ''scan.png'', args_bbox := Some (Rect 200 10 30 30)\<rparr>)
          (construct (Finite 0 0)))) = Rect 0 0 100 50"
  using initLocalImage_local_image
          [of example_world
              "example_args\<lparr>args_image := ''scan.png'', args_bbox := Some (Rect 200 10 30 30)\<rparr>"
              "construct (Finite 0 0)"]
  by (auto simp add: example_world_def example_args_def construct_def rect_of_size_def
        initLocalImage_def Let_def create_def set_attr_def)

text \<open>
  C5, as stated: the heights are \<open>round(aspectRatio \<times> width)\<close> and
  \<open>round(aspectRatio \<times> step)\<close>, with \<open>aspectRatio\<close> the model's height over its
  width. For a model 14 wide and 31 high and the window size 7, which \<open>initDetector\<close>
  accepts, the product is 15.5 and rounds to 16, and \<open>calcWindows\<close> returns the height
  15. For a model 2531 wide and 4522 high and the size 2224 the product lies below 3973.5
  and rounds to 3973, and \<open>calcWindows\<close> returns 3974.
\<close>

theorem calcWindows_exact_rounding_counterexample:
  "fst (initDetector tall_world single_ops tall_args (construct (Finite 0 0))) =
     Inr (create PolyDetector ''detector'') \<and>
   calcWindows single_ops tall_args
     (snd (initDetector tall_world single_ops tall_args (construct (Finite 0 0)))) =
     Inr [((7, 15), (7, 15))] \<and>
   round_mul exact_ops (aspect_of exact_ops (14, 31)) 7 = 16 \<and>
   calcWindows single_ops large_args
     (snd (initDetector large_world single_ops large_args (construct (Finite 0 0)))) =
     Inr [((2224, 3974), (2224, 3974))] \<and>
   round_mul exact_ops (aspect_of exact_ops (2531, 4522)) 2224 = 3973"
  by code_simp

text \<open>
  C5, amended. When the window-size and window-step lists have the same length and are
  not empty, \<open>calcWindows\<close> returns one (size, step) pair per index, in input order: the
  pair at index \<open>i\<close> has the \<open>i\<close>-th size as width and the \<open>i\<close>-th step as step width,
  and their heights are \<open>(int) roundf(ratio * width)\<close> and \<open>(int) roundf(ratio * step)\<close>
  in single-precision arithmetic: \<open>ratio\<close> is the float quotient of the model's height
  and width, stored by \<open>initDetector\<close> in \<open>modelAspectRatio_\<close>, the size or step is
  converted to a float, and the product is rounded to a float before \<open>roundf\<close>.
\<close>

theorem calcWindows_pairs_elementwise:
  fixes W :: "('g, 'p) world" and st :: "(single, 'g) osn"
  assumes "length (args_windowSize args) = length (args_windowStep args)"
      and "args_windowSize args \<noteq> []"
      and "m_modelAspectRatio st = m_modelAspectRatio (snd (initDetector W single_ops args st0))"
  shows "let ratio = single_div (single_of_int (snd (modelSize (modelCreate W))))
                       (single_of_int (fst (modelSize (modelCreate W))));
             height = (\<lambda>c. int_of_single (roundf (single_mul ratio (single_of_int c))))
         in \<exists>plan. calcWindows single_ops args st = Inr plan \<and>
              plan = map (\<lambda>(w, s). ((w, height w), (s, height s)))
                       (zip (args_windowSize args) (args_windowStep args)) \<and>
              length plan = length (args_windowSize args) \<and>
              (\<forall>i < length plan.
                 plan ! i = ((args_windowSize args ! i, height (args_windowSize args ! i)),
                             (args_windowStep args ! i, height (args_windowStep args ! i))))"
proof -
  have ratio: "m_modelAspectRatio st =
                 single_div (single_of_int (snd (modelSize (modelCreate W))))
                   (single_of_int (fst (modelSize (modelCreate W))))"
    using assms(3) by (simp add: initDetector_def single_ops_def Let_def split: option.splits)
  show ?thesis
    using assms(1,2)
    by (auto simp: calcWindows_def scaled_def Let_def ratio single_ops_def)
qed

theorem calcWindows_pairs_elementwise_witness:
  "calcWindows single_ops
     (example_args\<lparr>args_windowSize := [10, 15], args_windowStep := [5, 6]\<rparr>) example_state =
   Inr [((10, 5), (5, 3)), ((15, 8), (6, 3))]"
  using calcWindows_pairs_elementwise
          [of "example_args\<lparr>args_windowSize := [10, 15], args_windowStep := [5, 6]\<rparr>"
              example_state example_world
              "snd (initLocalImage example_world example_args (construct (Finite 0 0)))"]
  by (simp add: example_state_eq initDetector_def Let_def example_args_def example_world_def
        example_model_def single_eval)

text \<open>
  C6. \<open>calcWindows\<close> fails with the count-mismatch error exactly when both lists have
  more than one entry and their lengths differ; in every other case it returns a window
  plan.
\<close>

theorem calcWindows_count_mismatch:
  "(calcWindows F args st = Inl WindowStepCountMismatch \<longleftrightarrow>
      1 < length (args_windowSize args) \<and> 1 < length (args_windowStep args) \<and>
      length (args_windowSize args) \<noteq> length (args_windowStep args)) \<and>
   ((\<exists>plan. calcWindows F args st = Inr plan) \<longleftrightarrow>
      \<not> (1 < length (args_windowSize args) \<and> 1 < length (args_windowStep args) \<and>
         length (args_windowSize args) \<noteq> length (args_windowStep args)))"
  by (auto simp: calcWindows_def Let_def)

theorem calcWindows_count_mismatch_witness:
  "calcWindows single_ops
     (example_args\<lparr>args_windowSize := [10, 15, 20], args_windowStep := [5, 6]\<rparr>) example_state =
   Inl WindowStepCountMismatch \<and>
   calcWindows single_ops
     (example_args\<lparr>args_windowSize := [10, 15, 20], args_windowStep := [5]\<rparr>) example_state \<noteq>
   Inl WindowStepCountMismatch"
  using calcWindows_count_mismatch
          [of single_ops "example_args\<lparr>args_windowSize := [10, 15, 20], args_windowStep := [5, 6]\<rparr>"
              example_state]
        calcWindows_count_mismatch
          [of single_ops "example_args\<lparr>args_windowSize := [10, 15, 20], args_windowStep := [5]\<rparr>"
              example_state]
  by simp

text \<open>
  C7. A layer whose anchoring (CRS-anchored or local) differs from that of the output
  spatial reference \<open>sr_\<close> stops the region-filter builder with a CRS-mismatch error that
  carries the name of the layer's file, in both directions: a layer that is anchored while
  \<open>sr_\<close> is local raises the first message of the source, a local layer while \<open>sr_\<close> is
  anchored raises the second. This is the result of the check on the layer itself; it is
  the result of \<open>initSubsetRegionFilter\<close> when the entries, files and layers read before
  that layer pass; and with such a layer anywhere in the filter definition
  \<open>initSubsetRegionFilter\<close> returns no filter.
\<close>

theorem region_filter_crs_mismatch:
  fixes W :: "('g, 'p) world" and st :: "('f, 'g) osn"
  assumes mismatch: "isLocal (layer_sr layer) \<noteq> isLocal (m_sr st)"
  shows "layerTransform st filterFile layer =
           Inl (if isLocal (m_sr st) then CrsMismatchFilter filterFile else CrsMismatchImage filterFile) \<and>
         (args_filterDefinition args = before @ (action, filesBefore @ filterFile # filesAfter) # after \<longrightarrow>
          fileFeatureSet W filterFile = layersBefore @ layer # layersAfter \<longrightarrow>
          list_all (action_ok W st) before \<longrightarrow>
          list_all (file_ok W st) filesBefore \<longrightarrow>
          list_all (layer_ok st) layersBefore \<longrightarrow>
            fst (initSubsetRegionFilter W args st) =
              Inl (if isLocal (m_sr st) then CrsMismatchFilter filterFile else CrsMismatchImage filterFile)) \<and>
         ((action, files) \<in> set (args_filterDefinition args) \<longrightarrow>
          filterFile \<in> set files \<longrightarrow>
          layer \<in> set (fileFeatureSet W filterFile) \<longrightarrow>
            (\<exists>e. fst (initSubsetRegionFilter W args st) = Inl e))"
proof (intro conjI impI)
  show "layerTransform st filterFile layer =
          Inl (if isLocal (m_sr st) then CrsMismatchFilter filterFile else CrsMismatchImage filterFile)"
    using mismatch by (rule layerTransform_mismatch)
next
  assume defn: "args_filterDefinition args = before @ (action, filesBefore @ filterFile # filesAfter) # after"
    and layers: "fileFeatureSet W filterFile = layersBefore @ layer # layersAfter"
    and before: "list_all (action_ok W st) before"
    and filesBefore: "list_all (file_ok W st) filesBefore"
    and layersBefore: "list_all (layer_ok st) layersBefore"
  have "addFiles W st [] (filesBefore @ filterFile # filesAfter) =
          Inl (if isLocal (m_sr st) then CrsMismatchFilter filterFile else CrsMismatchImage filterFile)"
    using filesBefore layers layersBefore mismatch by (rule addFiles_first_mismatch)
  then have "fst (filterActions W st (seedFilter st) True (args_filterDefinition args)) =
          Inl (if isLocal (m_sr st) then CrsMismatchFilter filterFile else CrsMismatchImage filterFile)"
    unfolding defn using before filterActions_first_failure by blast
  moreover have "args_filterDefinition args \<noteq> []" by (simp add: defn)
  ultimately show "fst (initSubsetRegionFilter W args st) =
          Inl (if isLocal (m_sr st) then CrsMismatchFilter filterFile else CrsMismatchImage filterFile)"
    by (simp add: initSubsetRegionFilter_fst)
next
  assume entry: "(action, files) \<in> set (args_filterDefinition args)"
    and member: "filterFile \<in> set files"
    and layer: "layer \<in> set (fileFeatureSet W filterFile)"
  obtain e where "fst (filterActions W st (seedFilter st) True (args_filterDefinition args)) = Inl e"
    using filterActions_any_mismatch[OF entry member layer mismatch] by blast
  moreover have "args_filterDefinition args \<noteq> []" using entry by auto
  ultimately show "\<exists>e. fst (initSubsetRegionFilter W args st) = Inl e"
    by (simp add: initSubsetRegionFilter_fst)
qed

theorem region_filter_crs_mismatch_witness:
  "fst (initSubsetRegionFilter example_world
          (example_args\<lparr>args_filterDefinition :=
             [(''include'', [''a.shp'']), (''exclude'', [''b.shp'', ''local.shp''])]\<rparr>)
          example_state) = Inl (CrsMismatchImage ''local.shp'') \<and>
   layerTransform (construct (Finite 0 0) :: (single, Rect) osn) ''a.shp''
     (Layer (CRS ''EPSG:4326'') [Feature POLYGON (Rect 10 10 5 5)]) =
     Inl (CrsMismatchFilter ''a.shp'')"
proof -
  have sr: "m_sr example_state = WGS84"
    by (simp add: example_state_eq)
  have anchored: "isLocal (layer_sr (Layer LocalSR [Feature POLYGON (Rect 1 1 2 2)])) \<noteq>
                  isLocal (m_sr example_state)"
    by (simp add: sr WGS84_def)
  have local: "isLocal (layer_sr (Layer (CRS ''EPSG:4326'') [Feature POLYGON (Rect 10 10 5 5)])) \<noteq>
               isLocal (m_sr (construct (Finite 0 0) :: (single, Rect) osn))"
    by (simp add: construct_def)
  have before: "list_all (action_ok example_world example_state) [(''include'', [''a.shp''])]"
    by (simp add: action_ok_def file_ok_def layer_ok_def example_world_def example_files_def
          sr WGS84_def)
  have filesBefore: "list_all (file_ok example_world example_state) [''b.shp'']"
    by (simp add: file_ok_def layer_ok_def example_world_def example_files_def sr WGS84_def)
  have layers: "fileFeatureSet example_world ''local.shp'' =
                  [] @ Layer LocalSR [Feature POLYGON (Rect 1 1 2 2)] # []"
    by (simp add: example_world_def example_files_def)
  show ?thesis
    using region_filter_crs_mismatch
            [OF anchored,
             where W = example_world and filterFile = "''local.shp''" and action = "''exclude''"
               and before = "[(''include'', [''a.shp''])]" and filesBefore = "[''b.shp'']"
               and filesAfter = "[]" and after = "[]" and layersBefore = "[]" and layersAfter = "[]"
               and args = "example_args\<lparr>args_filterDefinition :=
                   [(''include'', [''a.shp'']), (''exclude'', [''b.shp'', ''local.shp''])]\<rparr>"]
          region_filter_crs_mismatch
            [OF local, where filterFile = "''a.shp''" and W = example_world and args = example_args]
          before filesBefore layers
    by (simp add: sr WGS84_def construct_def)
qed

text \<open>
  C8, as stated: with a progress display and without \<open>--quiet\<close>, once the display
  reports stopped the feature sink receives exactly one cancellation request. In the
  run below two callbacks find the display stopped, and the sink receives two
  cancellation requests.
\<close>

theorem monitor_one_cancel_counterexample:
  "sinkCalls (run False True [(SlidingWindowForwarded, 1, False), (DetectorProcessed, 1, False)]) =
     [SinkRun, SinkWait (Some True), SinkCancel, SinkCancel] \<and>
   count_list (sinkCalls (run False True
      [(SlidingWindowForwarded, 1, False), (DetectorProcessed, 1, False)])) SinkCancel \<noteq> 1"
  by (simp add: run_def Let_def)

text \<open>
  C8, amended. With a progress display and without \<open>--quiet\<close>, every callback that
  finds the display stopped sends one cancellation request to the feature sink and no
  update to the display. So when all callbacks from some point of the run on find the
  display stopped, the sink receives one cancellation request for each of them, and the
  display receives no update after those made before that point.
\<close>

theorem monitor_cancel_per_stopped_callback:
  "callback (mt, v, False) m = m\<lparr>sinkCalls := sinkCalls m @ [SinkCancel]\<rparr> \<and>
   (list_all (\<lambda>f. \<not> snd (snd f)) post \<longrightarrow>
      sinkCalls (run False True (pre @ post)) =
        sinkCalls (run False True pre) @ replicate (length post) SinkCancel \<and>
      displayCalls (run False True (pre @ post)) = displayCalls (run False True pre))"
  by (simp add: callback_stopped run_def Let_def callbacks_append callbacks_stopped)

theorem monitor_cancel_per_stopped_callback_witness:
  "sinkCalls (run False True
     ([(SlidingWindowTotal, 10, True), (SlidingWindowForwarded, 3, True)] @
      [(DetectorProcessed, 1, False), (SlidingWindowForwarded, 4, False)])) =
     [SinkRun, SinkWait (Some True), SinkCancel, SinkCancel] \<and>
   displayCalls (run False True
     ([(SlidingWindowTotal, 10, True), (SlidingWindowForwarded, 3, True)] @
      [(DetectorProcessed, 1, False), (SlidingWindowForwarded, 4, False)])) =
     [PdStart, UpdateMaximum ''Reading'' 10, UpdateMaximum ''Detecting'' 10,
      UpdateCurrent ''Reading'' 3, PdStop]"
proof -
  have pre: "run False True [(SlidingWindowTotal, 10, True), (SlidingWindowForwarded, 3, True)] =
               \<lparr>sinkCalls = [SinkRun, SinkWait (Some True)],
                displayCalls = [PdStart, UpdateMaximum ''Reading'' 10,
                                UpdateMaximum ''Detecting'' 10, UpdateCurrent ''Reading'' 3,
                                PdStop]\<rparr>"
    by (simp add: run_def Let_def)
  have stopped: "list_all (\<lambda>f. \<not> snd (snd f))
                   [(DetectorProcessed, 1::int, False), (SlidingWindowForwarded, 4, False)]"
    by simp
  show ?thesis
    using monitor_cancel_per_stopped_callback
            [of DetectorProcessed 1 "\<lparr>sinkCalls = [], displayCalls = []\<rparr>"
                "[(DetectorProcessed, 1, False), (SlidingWindowForwarded, 4, False)]"
                "[(SlidingWindowTotal, 10, True), (SlidingWindowForwarded, 3, True)]"]
          stopped
    by (simp add: pre del: append.simps)
qed

text \<open>
  C9. With a map-service source (MapsAPI, EVWHS, TileJSON or DGCS) and no bounding box,
  \<open>process\<close> fails with the error whose message is \<open>Bounding box must be specified\<close>;
  the state it fails in differs from the initial one by the single log line of
  \<open>process\<close>, so no \<open>client->connect()\<close> has happened. With a bounding box the connection
  is made. With a local source and no bounding box, opening the image succeeds.
\<close>

theorem map_service_requires_bbox:
  fixes W :: "('g, 'p) world" and st :: "('f, 'g) osn"
  shows "(args_source args \<in> {MAPS_API, EVWHS, TILE_JSON, DGCS} \<longrightarrow> args_bbox args = None \<longrightarrow>
            process W F args st =
              (Inl (DgError ''Bounding box must be specified'' []),
               st\<lparr>m_log := m_log st @ [LogInfo ''Opening map service image...'']\<rparr>) \<and>
            (\<forall>s. ClientConnect s \<in> set (m_log (snd (process W F args st))) \<longrightarrow>
                 ClientConnect s \<in> set (m_log st))) \<and>
         (args_source args \<in> {MAPS_API, EVWHS, TILE_JSON, DGCS} \<longrightarrow> args_bbox args \<noteq> None \<longrightarrow>
            ClientConnect (args_source args) \<in> set (m_log (snd (openSource W args st)))) \<and>
         (args_source args = LOCAL \<longrightarrow> args_bbox args = None \<longrightarrow>
            (\<exists>blockSource st1. openSource W args st = (Inr blockSource, st1)))"
proof (intro conjI impI)
  assume src: "args_source args \<in> {MAPS_API, EVWHS, TILE_JSON, DGCS}"
    and none: "args_bbox args = None"
  from src have rank: "source_rank LOCAL < source_rank (args_source args)" by auto
  have "openSource W args st =
          (Inl BoundingBoxRequired, osn_log (LogInfo ''Opening map service image...'') st)"
    using rank none by (simp add: openSource_def initMapServiceImage_def)
  then have p: "process W F args st =
          (Inl (DgError ''Bounding box must be specified'' []),
           st\<lparr>m_log := m_log st @ [LogInfo ''Opening map service image...'']\<rparr>)"
    by (simp add: process_def BoundingBoxRequired_def osn_log_def)
  show "process W F args st =
          (Inl (DgError ''Bounding box must be specified'' []),
           st\<lparr>m_log := m_log st @ [LogInfo ''Opening map service image...'']\<rparr>)"
    by (rule p)
  show "\<forall>s. ClientConnect s \<in> set (m_log (snd (process W F args st))) \<longrightarrow>
            ClientConnect s \<in> set (m_log st)"
    by (simp add: p)
next
  assume src: "args_source args \<in> {MAPS_API, EVWHS, TILE_JSON, DGCS}"
    and some: "args_bbox args \<noteq> None"
  from src have rank: "source_rank LOCAL < source_rank (args_source args)" by auto
  from some obtain b where b: "args_bbox args = Some b" by auto
  show "ClientConnect (args_source args) \<in> set (m_log (snd (openSource W args st)))"
    using rank by (simp add: openSource_def initMapServiceImage_def b Let_def osn_log_def)
next
  assume "args_source args = LOCAL" and "args_bbox args = None"
  then show "\<exists>blockSource st1. openSource W args st = (Inr blockSource, st1)"
    by (simp add: openSource_def initLocalImage_def Let_def split: prod.splits)
qed

theorem map_service_requires_bbox_witness:
  "process example_world single_ops (example_args\<lparr>args_source := EVWHS\<rparr>) (construct (Finite 0 0)) =
     (Inl (DgError ''Bounding box must be specified'' []),
      (construct (Finite 0 0))\<lparr>m_log := [LogInfo ''Opening map service image...'']\<rparr>) \<and>
   ClientConnect EVWHS \<in> set (m_log (snd (openSource example_world
      (example_args\<lparr>args_source := EVWHS, args_bbox := Some (Rect 0 0 10 10)\<rparr>)
      (construct (Finite 0 0)))))"
  using map_service_requires_bbox
          [of "example_args\<lparr>args_source := EVWHS\<rparr>" example_world single_ops "construct (Finite 0 0)"]
        map_service_requires_bbox
          [of "example_args\<lparr>args_source := EVWHS, args_bbox := Some (Rect 0 0 10 10)\<rparr>"
              example_world single_ops "construct (Finite 0 0)"]
  by (simp add: example_args_def construct_def)

text \<open>
  C10. When the exclude list is not empty (in particular when both lists are not empty)
  \<open>initLabelFilter\<close> returns a label filter in \<open>EXCLUDE\<close> mode whose labels are the
  exclude list, and \<open>process\<close> returns the same result whatever the include list is.
  \<open>initLabelFilter\<close> returns a node exactly when one of the two lists is not empty, and
  a graph returned by \<open>process\<close> has a label-filter node exactly then.
\<close>

theorem label_filter_exclude_first:
  fixes W :: "('g, 'p) world"
  shows "(args_excludeLabels args \<noteq> [] \<longrightarrow>
            (initLabelFilter args isSegmentation :: 'p node option) =
              Some \<lparr>node_name = ''labelFilter'',
                    node_kind = (if isSegmentation then PolyLabelFilter else BoxLabelFilter),
                    node_attrs = [(''labels'', AttrLabels (args_excludeLabels args)),
                                  (''labelFilterType'', AttrLabelFilterType EXCLUDE)]\<rparr> \<and>
            process W F (args\<lparr>args_includeLabels := other\<rparr>) st = process W F args st) \<and>
         ((initLabelFilter args isSegmentation :: 'p node option) \<noteq> None \<longleftrightarrow>
            args_excludeLabels args \<noteq> [] \<or> args_includeLabels args \<noteq> []) \<and>
         (process W F args st = (Inr g, st') \<longrightarrow>
            (PolyLabelFilter \<in> set (kinds g) \<or> BoxLabelFilter \<in> set (kinds g) \<longleftrightarrow>
             args_excludeLabels args \<noteq> [] \<or> args_includeLabels args \<noteq> []))"
proof (intro conjI impI)
  assume "args_excludeLabels args \<noteq> []"
  then show "(initLabelFilter args isSegmentation :: 'p node option) =
              Some \<lparr>node_name = ''labelFilter'',
                    node_kind = (if isSegmentation then PolyLabelFilter else BoxLabelFilter),
                    node_attrs = [(''labels'', AttrLabels (args_excludeLabels args)),
                                  (''labelFilterType'', AttrLabelFilterType EXCLUDE)]\<rparr>"
    by (simp add: initLabelFilter_def create_def set_attr_def)
next
  assume "args_excludeLabels args \<noteq> []"
  then show "process W F (args\<lparr>args_includeLabels := other\<rparr>) st = process W F args st"
    by (rule process_includeLabels)
next
  show "(initLabelFilter args isSegmentation :: 'p node option) \<noteq> None \<longleftrightarrow>
          args_excludeLabels args \<noteq> [] \<or> args_includeLabels args \<noteq> []"
    by (auto simp add: initLabelFilter_def Let_def)
next
  assume run: "process W F args st = (Inr g, st')"
  show "PolyLabelFilter \<in> set (kinds g) \<or> BoxLabelFilter \<in> set (kinds g) \<longleftrightarrow>
          args_excludeLabels args \<noteq> [] \<or> args_includeLabels args \<noteq> []"
    using process_graph[OF run]
    apply (elim exE conjE)
    apply (elim disjE exE conjE)
    apply (simp_all add: wire_def kinds_def create_def set_attr_def initLabelFilter_def
                     initPredictionToFeature_def subsetFilterNode_def Let_def)
    done
qed

theorem label_filter_exclude_first_witness:
  "(initLabelFilter (example_args\<lparr>args_excludeLabels := [''car''],
                                  args_includeLabels := [''boat'']\<rparr>) False :: Rect node option) =
     Some \<lparr>node_name = ''labelFilter'', node_kind = BoxLabelFilter,
           node_attrs = [(''labels'', AttrLabels [''car'']),
                         (''labelFilterType'', AttrLabelFilterType EXCLUDE)]\<rparr> \<and>
   process example_world single_ops
     (example_args\<lparr>args_excludeLabels := [''car''], args_includeLabels := [''boat'']\<rparr>)
     (construct (Finite 0 0)) =
   process example_world single_ops
     (example_args\<lparr>args_excludeLabels := [''car''], args_includeLabels := []\<rparr>)
     (construct (Finite 0 0))"
  using label_filter_exclude_first
          [of "example_args\<lparr>args_excludeLabels := [''car''], args_includeLabels := [''boat'']\<rparr>"
              False example_world single_ops "[]" "construct (Finite 0 0)"]
  by simp

end
